theory Spec2Isabelle
  imports Main
begin

section \<open>Image2TextArt: the Electron main process and renderer helpers\<close>

text \<open>
  The development embeds the parts of \<^verbatim>\<open>electron-gui/main.js\<close>,
  \<^verbatim>\<open>electron-gui/src/js/settings.js\<close> and \<^verbatim>\<open>electron-gui/src/js/app.js\<close>
  that the properties below are about: the result cache and the \<^verbatim>\<open>process-image\<close>,
  \<^verbatim>\<open>get-character-presets\<close> and \<^verbatim>\<open>suggest-optimal-settings\<close> handlers of the main
  process, \<^verbatim>\<open>applyPreset\<close> and \<^verbatim>\<open>processAnsiOutput\<close> of the renderer.

  Every handler is modelled as one atomic step: it takes the state of the main process and
  a description of what the outside world answers during the call (file system, clock,
  child process), and returns how its promise settles together with the new state.
  JavaScript numbers are an opaque type \<open>'n\<close>: the handlers only print them.
\<close>

subsection \<open>Settings objects\<close>

text \<open>
  The settings object built by the \<^verbatim>\<open>AsciiArtGenerator\<close> constructor (app.js, lines 19-43)
  and sent to the main process by \<^verbatim>\<open>generateAsciiArt\<close> as \<^verbatim>\<open>{...this.settings}\<close>. Every
  property is present with the type the constructor gives it; the form controls and the
  stored settings only replace values by values of the same type.
\<close>

record 'n settings =
  outputWidth :: 'n
  colorMode :: string
  dithering :: bool
  edgeDetect :: bool
  preset :: string
  enhanceContrast :: bool
  aspectRatioCorrection :: 'n
  invert :: bool
  edgeThreshold :: 'n
  blur :: 'n
  sharpen :: 'n
  brightness :: 'n
  saturation :: 'n
  contrast :: 'n
  detailLevel :: 'n
  gamma :: 'n
  customChars :: string
  fontFamily :: string
  fontSize :: 'n
  autoFit :: bool
  bgColor :: string
  textColor :: string

subsection \<open>The result cache: a JavaScript \<^verbatim>\<open>Map\<close>\<close>

text \<open>
  \<^verbatim>\<open>const processCache = new Map()\<close> (main.js, line 9). A \<^verbatim>\<open>Map\<close> iterates its keys in
  insertion order; \<^verbatim>\<open>set\<close> on a key already present replaces the value and keeps the
  key's position, \<^verbatim>\<open>set\<close> on a new key appends it. The model is the list of entries in
  iteration order.
\<close>

type_synonym cache = "(string \<times> string) list"

definition Map_keys :: "cache \<Rightarrow> string list" where
  "Map_keys c = map fst c"

definition Map_has :: "cache \<Rightarrow> string \<Rightarrow> bool" where
  "Map_has c k = (k \<in> set (Map_keys c))"

definition Map_get :: "cache \<Rightarrow> string \<Rightarrow> string option" where
  "Map_get c k = map_of c k"

fun Map_set :: "string \<Rightarrow> string \<Rightarrow> cache \<Rightarrow> cache" where
  "Map_set k v [] = [(k, v)]"
| "Map_set k v (e # c) = (if fst e = k then (k, v) # c else e # Map_set k v c)"

definition Map_delete :: "string \<Rightarrow> cache \<Rightarrow> cache" where
  "Map_delete k c = filter (\<lambda>e. fst e \<noteq> k) c"

definition Map_size :: "cache \<Rightarrow> nat" where
  "Map_size c = length c"

text \<open>
  main.js, lines 583-593: store the result, then limit the cache size.
  \<^verbatim>\<open>
  processCache.set(cacheKey, result);
  if (processCache.size > 10) {
    const keys = Array.from(processCache.keys());
    for (let i = 0; i < keys.length - 10; i++) {
      processCache.delete(keys[i]);
    }
  }
  \<close>
\<close>

definition limit_cache :: "cache \<Rightarrow> cache" where
  "limit_cache c =
     (if Map_size c > 10
      then (let keys = Map_keys c in fold Map_delete (take (length keys - 10) keys) c)
      else c)"

definition cache_store :: "string \<Rightarrow> string \<Rightarrow> cache \<Rightarrow> cache" where
  "cache_store cacheKey result c = limit_cache (Map_set cacheKey result c)"

text \<open>Storing a list of results one after the other, the first of the list first.\<close>

definition store_all :: "(string \<times> string) list \<Rightarrow> cache \<Rightarrow> cache" where
  "store_all kvs c = fold (\<lambda>e. cache_store (fst e) (snd e)) kvs c"

text \<open>Every \<^verbatim>\<open>Map\<close> holds each key once.\<close>

definition wf_cache :: "cache \<Rightarrow> bool" where
  "wf_cache c = distinct (Map_keys c)"

subsection \<open>State of the main process and the outside world\<close>

text \<open>
  The state: the result cache, the three keys of the electron-store that the handlers
  use, and a log of the \<^verbatim>\<open>spawn\<close> calls made so far (command and argument list), also
  of a call that throws.
  \<^verbatim>\<open>activeProcesses\<close> only holds the pid of a child between its start and its end and is
  the same before and after a handler's step.
\<close>

record 'n main_state =
  processCache :: cache
  lastSettings :: "'n settings"
  optimizeMemory :: "bool option"
  systemPythonPath :: "string option"
  spawned :: "(string \<times> string list) list"

text \<open>What a call of \<^verbatim>\<open>spawn\<close> does: it throws an exception at once (the message of
  the exception; no child exists then), or it returns and the child ends later, with the
  \<^verbatim>\<open>error\<close> event and its message, or with the \<^verbatim>\<open>close\<close> event and the exit code
  (\<open>None\<close> is JavaScript's \<^verbatim>\<open>null\<close>, a child killed by a signal), what it wrote on
  stdout and what it wrote on stderr.\<close>

datatype proc_result =
    SpawnThrows string
  | SpawnError string
  | Closed "int option" string string

text \<open>JavaScript values, as far as \<^verbatim>\<open>JSON.parse\<close> and object literals produce them. The
  properties of an object are listed in insertion order.\<close>

datatype 'n jsval =
    JUndefined
  | JNull
  | JBool bool
  | JNumber 'n
  | JString string
  | JArray "'n jsval list"
  | JObject "(string \<times> 'n jsval) list"

text \<open>
  What the outside world answers during one call. \<open>fileBytes\<close> is the content of the
  regular files and \<open>isDirectory\<close> the directories at the start of the call;
  \<open>mkdirSync\<close> tells whether creating a directory succeeds (it throws otherwise);
  \<open>readFileSync\<close> is the read of the output file after the child has ended (\<open>Inl\<close> the
  message of the exception). \<open>Number_toString\<close>, \<open>JSON_stringify\<close>, \<open>JSON_parse\<close>
  (\<open>None\<close> when it throws), \<open>parseInt\<close> and \<open>String_trim\<close>
  (\<^verbatim>\<open>String.prototype.trim\<close>) are the JavaScript built-ins, \<open>pathJoin\<close> is
  \<^verbatim>\<open>path.join\<close>, \<open>now\<close> is \<^verbatim>\<open>Date.now()\<close> as the template literal prints it.
\<close>

record 'n env =
  fileBytes :: "string \<Rightarrow> string option"
  isDirectory :: "string \<Rightarrow> bool"
  mkdirSync :: "string \<Rightarrow> bool"
  readFileSync :: "string \<Rightarrow> string + string"
  spawn :: "string \<Rightarrow> string list \<Rightarrow> proc_result"
  dirname :: string
  isPackaged :: bool
  resourcesPath :: string
  tempPath :: string
  now :: string
  pathJoin :: "string \<Rightarrow> string \<Rightarrow> string"
  Number_toString :: "'n \<Rightarrow> string"
  JSON_stringify :: "'n settings \<Rightarrow> string"
  JSON_parse :: "string \<Rightarrow> 'n jsval option"
  parseInt :: "string \<Rightarrow> 'n"
  String_trim :: "string \<Rightarrow> string"

definition existsSync :: "'n env \<Rightarrow> string \<Rightarrow> bool" where
  "existsSync env p = (fileBytes env p \<noteq> None \<or> isDirectory env p)"

text \<open>How the promise returned by a handler settles. A handler whose executor throws
  leaves the promise pending for ever: the executor of \<^verbatim>\<open>process-image\<close> is an
  \<^verbatim>\<open>async\<close> function, so an exception in it rejects the executor's own promise and not
  the one the handler returned.\<close>

datatype 'a outcome = Resolved 'a | Rejected string | Unsettled

subsection \<open>\<^verbatim>\<open>getPythonPath\<close> and \<^verbatim>\<open>getCacheKey\<close>\<close>

record python_paths =
  pythonPath :: string
  bridgeScript :: string
  projectRoot :: string

definition getPythonPath :: "'n env \<Rightarrow> 'n main_state \<Rightarrow> python_paths" where
  "getPythonPath env s =
     \<lparr> pythonPath = (case systemPythonPath s of None \<Rightarrow> ''python'' | Some p \<Rightarrow> p),
       bridgeScript = pathJoin env (dirname env) ''python_bridge.py'',
       projectRoot = (if isPackaged env then resourcesPath env
                      else pathJoin env (dirname env) ''..'') \<rparr>"

text \<open>main.js, lines 462-466: \<^verbatim>\<open>return `${imagePath}:${settingsString}`\<close>.\<close>

definition getCacheKey :: "'n env \<Rightarrow> string \<Rightarrow> 'n settings \<Rightarrow> string" where
  "getCacheKey env imagePath settings =
     (let settingsString = JSON_stringify env settings
      in imagePath @ '':'' @ settingsString)"

subsection \<open>The \<^verbatim>\<open>process-image\<close> handler\<close>

text \<open>main.js, lines 498-528: the argument list of the bridge script.\<close>

definition build_args ::
  "'n env \<Rightarrow> 'n main_state \<Rightarrow> string \<Rightarrow> string \<Rightarrow> string \<Rightarrow> 'n settings \<Rightarrow> string list" where
  "build_args env s bridge imagePath outputFile settings =
     [bridge, ''generate'', imagePath,
      ''--output'', outputFile,
      ''--width'', Number_toString env (outputWidth settings),
      ''--color'', colorMode settings,
      ''--preset'', preset settings,
      ''--edge-threshold'', Number_toString env (edgeThreshold settings),
      ''--aspect-ratio'', Number_toString env (aspectRatioCorrection settings),
      ''--blur'', Number_toString env (blur settings),
      ''--sharpen'', Number_toString env (sharpen settings),
      ''--brightness'', Number_toString env (brightness settings),
      ''--saturation'', Number_toString env (saturation settings),
      ''--contrast'', Number_toString env (contrast settings),
      ''--detail-level'', Number_toString env (detailLevel settings),
      ''--gamma'', Number_toString env (gamma settings)]
     @ (if (case optimizeMemory s of None \<Rightarrow> True | Some b \<Rightarrow> b)
        then [''--optimize-for'', ''memory'', ''--max-image-size'', ''2000''] else [])
     @ (if dithering settings then [''--dither''] else [])
     @ (if edgeDetect settings then [''--edges''] else [])
     @ (if \<not> enhanceContrast settings then [''--no-enhance''] else [])
     @ (if invert settings then [''--invert''] else [])"

text \<open>main.js, lines 543-611: what follows the call of \<^verbatim>\<open>spawn\<close>. An exception of
  \<^verbatim>\<open>spawn\<close> leaves the \<^verbatim>\<open>async\<close> executor, so the promise of the handler stays pending;
  otherwise the \<^verbatim>\<open>error\<close> or the \<^verbatim>\<open>close\<close> event of the child settles it.\<close>

definition on_process_end ::
  "'n env \<Rightarrow> 'n main_state \<Rightarrow> string \<Rightarrow> string \<Rightarrow> proc_result \<Rightarrow> string outcome \<times> 'n main_state" where
  "on_process_end env s cacheKey outputFile r =
     (case r of
        SpawnThrows msg \<Rightarrow> (Unsettled, s)
      | SpawnError msg \<Rightarrow> (Rejected (''Failed to start Python process: '' @ msg), s)
      | Closed code stdoutData stderrData \<Rightarrow>
          if code \<noteq> Some 0
          then (Rejected (''Python error: '' @
                  (if stderrData = [] then ''Unknown error'' else stderrData)), s)
          else (case readFileSync env outputFile of
                  Inr result \<Rightarrow>
                    (Resolved result,
                     s\<lparr>processCache := cache_store cacheKey result (processCache s)\<rparr>)
                | Inl msg \<Rightarrow> (Rejected (''Failed to read output file: '' @ msg), s)))"

text \<open>main.js, lines 491-496: the temporary directory and the output file.\<close>

definition tmp_dir :: "'n env \<Rightarrow> string" where
  "tmp_dir env = pathJoin env (tempPath env) ''ansi-ascii-art-generator''"

definition output_file :: "'n env \<Rightarrow> string" where
  "output_file env = pathJoin env (tmp_dir env) (''output-'' @ now env @ ''.txt'')"

definition python_args :: "'n env \<Rightarrow> 'n main_state \<Rightarrow> string \<Rightarrow> 'n settings \<Rightarrow> string list" where
  "python_args env s imagePath settings =
     build_args env s (bridgeScript (getPythonPath env s)) imagePath (output_file env) settings"

text \<open>main.js, lines 469-613.\<close>

definition process_image ::
  "'n env \<Rightarrow> 'n main_state \<Rightarrow> string \<Rightarrow> 'n settings \<Rightarrow> string outcome \<times> 'n main_state" where
  "process_image env s imagePath settings =
     (let cacheKey = getCacheKey env imagePath settings in
      case Map_get (processCache s) cacheKey of
        Some cached \<Rightarrow> (Resolved cached, s)
      | None \<Rightarrow>
          (let paths = getPythonPath env s in
           if \<not> existsSync env (bridgeScript paths)
           then (Rejected (''Bridge script not found: '' @ bridgeScript paths), s)
           else if \<not> existsSync env imagePath
           then (Rejected (''Image file not found: '' @ imagePath), s)
           else
             (let tmpDir = tmp_dir env in
              if \<not> existsSync env tmpDir \<and> \<not> mkdirSync env tmpDir
              then (Unsettled, s)
              else
                (let outputFile = output_file env;
                     args = python_args env s imagePath settings;
                     s1 = s\<lparr>lastSettings := settings,
                            spawned := spawned s @ [(pythonPath paths, args)]\<rparr>
                 in on_process_end env s1 cacheKey outputFile
                      (spawn env (pythonPath paths) args)))))"

subsection \<open>The \<^verbatim>\<open>get-character-presets\<close> handler\<close>

text \<open>main.js, lines 699-760. The executor of the promise is a plain function, so an
  exception of \<^verbatim>\<open>spawn\<close> rejects the promise with that exception; every failure that the
  handler itself tests for resolves with the empty array.\<close>

definition get_character_presets ::
  "'n env \<Rightarrow> 'n main_state \<Rightarrow> 'n jsval outcome \<times> 'n main_state" where
  "get_character_presets env s =
     (let paths = getPythonPath env s in
      if \<not> existsSync env (bridgeScript paths)
      then (Resolved (JArray []), s)
      else
        (let args = [bridgeScript paths, ''get_presets''];
             s1 = s\<lparr>spawned := spawned s @ [(pythonPath paths, args)]\<rparr>
         in case spawn env (pythonPath paths) args of
              SpawnThrows msg \<Rightarrow> (Rejected msg, s1)
            | SpawnError msg \<Rightarrow> (Resolved (JArray []), s1)
            | Closed code stdoutData stderrData \<Rightarrow>
                if code \<noteq> Some 0
                then (Resolved (JArray []), s1)
                else (case JSON_parse env (String_trim env stdoutData) of
                        Some result \<Rightarrow> (Resolved result, s1)
                      | None \<Rightarrow> (Resolved (JArray []), s1))))"

subsection \<open>The \<^verbatim>\<open>suggest-optimal-settings\<close> handler\<close>

text \<open>The regular expressions of the fallback (main.js, lines 845-858):
  \<open>regex_capture pre cls\<close> is \<^verbatim>\<open>/pre(c+)/\<close> for a character class \<open>c\<close> and gives the
  first group of the leftmost match; \<open>regex_choice pre alts\<close> is \<^verbatim>\<open>/pre(a1|a2)/\<close>.\<close>

definition is_digit :: "char \<Rightarrow> bool" where
  "is_digit c = (c \<in> set ''0123456789'')"

definition is_word :: "char \<Rightarrow> bool" where
  "is_word c = (c \<in> set ''abcdefghijklmnopqrstuvwxyzABCDEFGHIJKLMNOPQRSTUVWXYZ0123456789_'')"

fun regex_capture :: "string \<Rightarrow> (char \<Rightarrow> bool) \<Rightarrow> string \<Rightarrow> string option" where
  "regex_capture pre cls [] = None"
| "regex_capture pre cls (c # cs) =
     (let g = takeWhile cls (drop (length pre) (c # cs))
      in if take (length pre) (c # cs) = pre \<and> g \<noteq> [] then Some g
         else regex_capture pre cls cs)"

fun regex_choice :: "string \<Rightarrow> string list \<Rightarrow> string \<Rightarrow> string option" where
  "regex_choice pre alts [] = None"
| "regex_choice pre alts (c # cs) =
     (if take (length pre) (c # cs) = pre
      then (case find (\<lambda>a. take (length a) (drop (length pre) (c # cs)) = a) alts of
              Some a \<Rightarrow> Some a
            | None \<Rightarrow> regex_choice pre alts cs)
      else regex_choice pre alts cs)"

text \<open>The result object: \<^verbatim>\<open>{ success: true, settings }\<close> or
  \<^verbatim>\<open>{ success: false, error }\<close>.\<close>

datatype 'n suggestion = Suggested "'n jsval" | NotSuggested string

text \<open>main.js, lines 840-865: the settings read from the text output when it is not JSON.\<close>

definition fallback_settings :: "'n env \<Rightarrow> string \<Rightarrow> (string \<times> 'n jsval) list" where
  "fallback_settings env output =
     (case regex_capture ''Width: '' is_digit output of
        Some w \<Rightarrow> [(''outputWidth'', JNumber (parseInt env w))] | None \<Rightarrow> [])
     @ (case regex_capture ''Color mode: '' is_word output of
        Some m \<Rightarrow> [(''colorMode'', JString m)] | None \<Rightarrow> [])
     @ (case regex_capture ''Character preset: '' is_word output of
        Some p \<Rightarrow> [(''preset'', JString p)] | None \<Rightarrow> [])
     @ (case regex_choice ''Dithering: '' [''enabled'', ''disabled''] output of
        Some d \<Rightarrow> [(''dithering'', JBool (d = ''enabled''))] | None \<Rightarrow> [])
     @ (case regex_choice ''Edge detection: '' [''enabled'', ''disabled''] output of
        Some d \<Rightarrow> [(''edgeDetect'', JBool (d = ''enabled''))] | None \<Rightarrow> [])"

text \<open>main.js, lines 795-874. Here too the executor is a plain function and an exception
  of \<^verbatim>\<open>spawn\<close> rejects the promise.\<close>

definition suggest_optimal_settings ::
  "'n env \<Rightarrow> 'n main_state \<Rightarrow> string \<Rightarrow> 'n suggestion outcome \<times> 'n main_state" where
  "suggest_optimal_settings env s imagePath =
     (if \<not> existsSync env imagePath
      then (Resolved (NotSuggested ''File not found''), s)
      else
        (let paths = getPythonPath env s;
             args = [bridgeScript paths, ''suggest_settings'', imagePath, ''100''];
             s1 = s\<lparr>spawned := spawned s @ [(pythonPath paths, args)]\<rparr>
         in case spawn env (pythonPath paths) args of
              SpawnThrows msg \<Rightarrow> (Rejected msg, s1)
            | SpawnError msg \<Rightarrow> (Resolved (NotSuggested msg), s1)
            | Closed code stdoutData stderrData \<Rightarrow>
                if code \<noteq> Some 0
                then (Resolved (NotSuggested
                        (if stderrData = [] then ''Unknown error'' else stderrData)), s1)
                else (case JSON_parse env (String_trim env stdoutData) of
                        Some result \<Rightarrow> (Resolved (Suggested result), s1)
                      | None \<Rightarrow>
                          (let settings = fallback_settings env (stdoutData @ stderrData)
                           in if length settings > 0
                              then (Resolved (Suggested (JObject settings)), s1)
                              else (Resolved (NotSuggested ''Could not parse settings''), s1)))))"

subsection \<open>Renderer: \<^verbatim>\<open>applyPreset\<close> (settings.js)\<close>

text \<open>Decimal digits of a natural number, as JavaScript prints an array index.\<close>

function show_nat :: "nat \<Rightarrow> string" where
  "show_nat n = (if n < 10 then [''0123456789'' ! n]
                 else show_nat (n div 10) @ [''0123456789'' ! (n mod 10)])"
  by pat_completeness auto
termination
  by (relation "measure (\<lambda>n. n)") auto

declare show_nat.simps [simp del]

text \<open>Property access \<^verbatim>\<open>o.k\<close> and assignment \<^verbatim>\<open>o.k = v\<close> on an object.\<close>

definition obj_get :: "(string \<times> 'n jsval) list \<Rightarrow> string \<Rightarrow> 'n jsval" where
  "obj_get obj k = (case map_of obj k of None \<Rightarrow> JUndefined | Some v \<Rightarrow> v)"

fun obj_set :: "string \<Rightarrow> 'n jsval \<Rightarrow> (string \<times> 'n jsval) list \<Rightarrow> (string \<times> 'n jsval) list" where
  "obj_set k v [] = [(k, v)]"
| "obj_set k v (e # obj) = (if fst e = k then (k, v) # obj else e # obj_set k v obj)"

text \<open>The own enumerable properties that a spread \<^verbatim>\<open>...v\<close> copies: those of an object,
  the elements of an array and the characters of a string under their indices, and none
  for the other values. A property that is already there keeps its place and takes the
  new value. (JavaScript enumerates index-like keys before the others; the order of the
  properties is not read anywhere below.)\<close>

definition own_props :: "'n jsval \<Rightarrow> (string \<times> 'n jsval) list" where
  "own_props v =
     (case v of
        JObject ps \<Rightarrow> ps
      | JArray xs \<Rightarrow> map (\<lambda>i. (show_nat i, xs ! i)) [0..<length xs]
      | JString str \<Rightarrow> map (\<lambda>i. (show_nat i, JString [str ! i])) [0..<length str]
      | _ \<Rightarrow> [])"

definition spread :: "'n jsval \<Rightarrow> (string \<times> 'n jsval) list \<Rightarrow> (string \<times> 'n jsval) list" where
  "spread v obj = fold (\<lambda>e. obj_set (fst e) (snd e)) (own_props v) obj"

text \<open>\<^verbatim>\<open>!v\<close> is false for a truthy value. Which numbers are truthy (all but \<^verbatim>\<open>0\<close> and
  \<^verbatim>\<open>NaN\<close>) is a parameter, numbers being opaque.\<close>

definition truthy :: "('n \<Rightarrow> bool) \<Rightarrow> 'n jsval \<Rightarrow> bool" where
  "truthy num_truthy v =
     (case v of
        JUndefined \<Rightarrow> False
      | JNull \<Rightarrow> False
      | JBool b \<Rightarrow> b
      | JNumber n \<Rightarrow> num_truthy n
      | JString str \<Rightarrow> str \<noteq> []
      | JArray xs \<Rightarrow> True
      | JObject ps \<Rightarrow> True)"

text \<open>The part of \<^verbatim>\<open>window.app\<close> that \<^verbatim>\<open>applyPreset\<close> touches: the settings object and
  the status line that \<^verbatim>\<open>showStatus\<close> writes (message and type).\<close>

record 'n AsciiArtGenerator =
  app_settings :: "(string \<times> 'n jsval) list"
  status :: "(string \<times> string) option"

text \<open>settings.js, lines 192-212; \<open>None\<close> is a missing \<^verbatim>\<open>window.app\<close> and
  \<open>preset_obj\<close> the argument \<^verbatim>\<open>preset\<close>.
  \<^verbatim>\<open>
  const displaySettings = {
    fontFamily: window.app.settings.fontFamily,
    fontSize: window.app.settings.fontSize,
    autoFit: window.app.settings.autoFit,
    bgColor: window.app.settings.bgColor,
    textColor: window.app.settings.textColor
  }
  window.app.settings = {...window.app.settings, ...preset, ...displaySettings}
  \<close>
\<close>

definition display_keys :: "string list" where
  "display_keys = [''fontFamily'', ''fontSize'', ''autoFit'', ''bgColor'', ''textColor'']"

definition applyPreset ::
  "('n \<Rightarrow> bool) \<Rightarrow> 'n AsciiArtGenerator option \<Rightarrow> 'n jsval \<Rightarrow> 'n AsciiArtGenerator option" where
  "applyPreset num_truthy window_app preset_obj =
     (case window_app of
        None \<Rightarrow> None
      | Some app \<Rightarrow>
          if \<not> truthy num_truthy preset_obj then Some app
          else
            (let displaySettings =
                   JObject (map (\<lambda>k. (k, obj_get (app_settings app) k)) display_keys)
             in Some (app\<lparr>app_settings :=
                            spread displaySettings
                              (spread preset_obj (spread (JObject (app_settings app)) [])),
                          status := Some (''Preset applied'', ''success'')\<rparr>)))"

subsection \<open>Renderer: \<^verbatim>\<open>processAnsiOutput\<close> (app.js)\<close>

text \<open>\<^verbatim>\<open>.replace(/\r?\n/g, '<br>')\<close>\<close>

fun replace_newlines :: "string \<Rightarrow> string" where
  "replace_newlines [] = []"
| "replace_newlines [c] = (if c = CHR 0x0A then ''<br>'' else [c])"
| "replace_newlines (c # d # cs) =
     (if c = CHR 0x0D \<and> d = CHR 0x0A then ''<br>'' @ replace_newlines cs
      else if c = CHR 0x0A then ''<br>'' @ replace_newlines (d # cs)
      else c # replace_newlines (d # cs))"

text \<open>\<^verbatim>\<open>p1.split(';').map(Number)\<close> on a string of digits and semicolons: the empty string
  is the number 0. The numbers are compared with 0, 38, 5 and 2 only and otherwise
  printed, so their values are natural numbers and the printing of a number in a
  template literal is the parameter \<open>fmt\<close>.\<close>

fun split_on :: "char \<Rightarrow> string \<Rightarrow> string list" where
  "split_on sep [] = [[]]"
| "split_on sep (c # cs) =
     (if c = sep then [] # split_on sep cs
      else (case split_on sep cs of [] \<Rightarrow> [[c]] | w # ws \<Rightarrow> (c # w) # ws))"

definition Number_of_digits :: "string \<Rightarrow> nat" where
  "Number_of_digits ds = fold (\<lambda>c n. 10 * n + (of_char c - 48)) ds 0"

text \<open>\<^verbatim>\<open>params[i] || d\<close>: the default for a missing element and for 0.\<close>

definition param_or :: "nat list \<Rightarrow> nat \<Rightarrow> nat \<Rightarrow> nat" where
  "param_or params i d = (if i < length params \<and> params ! i \<noteq> 0 then params ! i else d)"

text \<open>app.js, lines 614-637: the replacement of one colour code with parameters \<open>p1\<close>.\<close>

definition ansi_span :: "(nat \<Rightarrow> string) \<Rightarrow> string \<Rightarrow> string" where
  \<open>ansi_span fmt p1 =
     (let params = map Number_of_digits (split_on CHR '';'' p1) in
      if params ! 0 = 0 then ''</span>''
      else if params ! 0 = 38 \<and> 1 < length params \<and> params ! 1 = 5
      then ''<span style="color: var(--ansi-'' @ fmt (param_or params 2 7) @ '');">''
      else if params ! 0 = 38 \<and> 1 < length params \<and> params ! 1 = 2
      then ''<span style="color: rgb('' @ fmt (param_or params 2 255) @ '', ''
             @ fmt (param_or params 3 255) @ '', '' @ fmt (param_or params 4 255) @ '');">''
      else ''<span>'')\<close>

text \<open>A match of \<^verbatim>\<open>/\u001b\[([0-9;]*)m/\<close> at the head of the string: the group and the
  rest of the string after the match.\<close>

definition is_param_char :: "char \<Rightarrow> bool" where
  "is_param_char c = (is_digit c \<or> c = CHR '';'')"

definition match_code :: "string \<Rightarrow> (string \<times> string) option" where
  "match_code s =
     (case s of
        e # b # t \<Rightarrow>
          if e = CHR 0x1B \<and> b = CHR ''[''
          then (case dropWhile is_param_char t of
                  m # rest \<Rightarrow> if m = CHR ''m'' then Some (takeWhile is_param_char t, rest) else None
                | [] \<Rightarrow> None)
          else None
      | _ \<Rightarrow> None)"

function replace_codes :: "(nat \<Rightarrow> string) \<Rightarrow> string \<Rightarrow> string" where
  "replace_codes fmt s =
     (case s of
        [] \<Rightarrow> []
      | c # cs \<Rightarrow>
          (case match_code s of
             Some (p1, rest) \<Rightarrow> ansi_span fmt p1 @ replace_codes fmt rest
           | None \<Rightarrow> c # replace_codes fmt cs))"
  by pat_completeness auto
termination
  apply (relation "measure (\<lambda>(fmt, s). length s)")
    apply (auto simp: match_code_def split: list.splits if_splits)
  subgoal for rest t
    using length_dropWhile_le [of is_param_char t] by simp
  done

declare replace_codes.simps [simp del]

text \<open>The number of matches of a literal pattern with the \<^verbatim>\<open>g\<close> flag,
  \<^verbatim>\<open>(processed.match(/pat/g) || []).length\<close>: the scan resumes after each match.\<close>

function count_matches :: "string \<Rightarrow> string \<Rightarrow> nat" where
  "count_matches pat s =
     (if pat = [] then Suc (length s)
      else if s = [] then 0
      else if take (length pat) s = pat then Suc (count_matches pat (drop (length pat) s))
      else count_matches pat (tl s))"
  by pat_completeness auto
termination
  by (relation "measure (\<lambda>(pat, s). length s)") auto

declare count_matches.simps [simp del]

text \<open>app.js, lines 604-649.\<close>

definition processAnsiOutput :: "(nat \<Rightarrow> string) \<Rightarrow> string \<Rightarrow> string" where
  "processAnsiOutput fmt ansi =
     (let processed = replace_codes fmt (replace_newlines ansi);
          openTags = count_matches ''<span'' processed;
          closeTags = count_matches ''</span>'' processed
      in processed @ concat (replicate (openTags - closeTags) ''</span>''))"

text \<open>
  The spans that a piece of HTML leaves open, read from left to right: \<^verbatim>\<open><span\<close> opens
  a span, \<^verbatim>\<open></span>\<close> closes the span opened last and closes nothing when no span is
  open. \<open>open_spans depth s\<close> is the number of spans open after \<open>s\<close> when \<open>depth\<close> were
  open before it. This is the reading of "every span that is opened is closed" that the
  properties below use; it is not part of the program.
\<close>

function open_spans :: "nat \<Rightarrow> string \<Rightarrow> nat" where
  "open_spans depth s =
     (if s = [] then depth
      else if take 7 s = ''</span>'' then open_spans (depth - 1) (drop 7 s)
      else if take 5 s = ''<span'' then open_spans (Suc depth) (drop 5 s)
      else open_spans depth (tl s))"
  by pat_completeness auto
termination
  by (relation "measure (\<lambda>(depth, s). length s)") auto

declare open_spans.simps [simp del]

subsection \<open>A concrete world\<close>

text \<open>
  An instance of the outside world for the examples: numbers are integers printed in
  decimal, the bridge script and two image files with the same bytes exist, the temporary
  directory exists, the clock reads 1700000000000 and paths are joined with a slash.
  \<open>json_settings\<close> prints a settings object as \<^verbatim>\<open>JSON.stringify\<close> does for the property
  order of the constructor (strings that need no escaping).
\<close>

text \<open>\<^verbatim>\<open>String.prototype.trim\<close> on strings of code units below 256: the white space and
  line terminators there are TAB, LF, VT, FF, CR, the space and the no-break space.\<close>

definition is_space :: "char \<Rightarrow> bool" where
  "is_space c =
     (c \<in> set [CHR 0x09, CHR 0x0A, CHR 0x0B, CHR 0x0C, CHR 0x0D, CHR 0x20, CHR 0xA0])"

definition trim_latin1 :: "string \<Rightarrow> string" where
  "trim_latin1 s = rev (dropWhile is_space (rev (dropWhile is_space s)))"

definition show_int :: "int \<Rightarrow> string" where
  "show_int i = (if i < 0 then CHR ''-'' # show_nat (nat (- i)) else show_nat (nat i))"

definition show_bool :: "bool \<Rightarrow> string" where
  "show_bool b = (if b then ''true'' else ''false'')"

definition json_settings :: "int settings \<Rightarrow> string" where
  \<open>json_settings c =
     ''{"outputWidth":'' @ show_int (outputWidth c)
     @ '',"colorMode":"'' @ colorMode c
     @ ''","dithering":'' @ show_bool (dithering c)
     @ '',"edgeDetect":'' @ show_bool (edgeDetect c)
     @ '',"preset":"'' @ preset c
     @ ''","enhanceContrast":'' @ show_bool (enhanceContrast c)
     @ '',"aspectRatioCorrection":'' @ show_int (aspectRatioCorrection c)
     @ '',"invert":'' @ show_bool (invert c)
     @ '',"edgeThreshold":'' @ show_int (edgeThreshold c)
     @ '',"blur":'' @ show_int (blur c)
     @ '',"sharpen":'' @ show_int (sharpen c)
     @ '',"brightness":'' @ show_int (brightness c)
     @ '',"saturation":'' @ show_int (saturation c)
     @ '',"contrast":'' @ show_int (contrast c)
     @ '',"detailLevel":'' @ show_int (detailLevel c)
     @ '',"gamma":'' @ show_int (gamma c)
     @ '',"customChars":"'' @ customChars c
     @ ''","fontFamily":"'' @ fontFamily c
     @ ''","fontSize":'' @ show_int (fontSize c)
     @ '',"autoFit":'' @ show_bool (autoFit c)
     @ '',"bgColor":"'' @ bgColor c
     @ ''","textColor":"'' @ textColor c @ ''"}''\<close>

definition example_settings :: "int settings" where
  "example_settings =
     \<lparr> outputWidth = 100, colorMode = ''ansi'', dithering = False, edgeDetect = False,
       preset = ''classic'', enhanceContrast = True, aspectRatioCorrection = 1,
       invert = False, edgeThreshold = 75, blur = 0, sharpen = 0, brightness = 1,
       saturation = 1, contrast = 1, detailLevel = 1, gamma = 1, customChars = [],
       fontFamily = ''monospace'', fontSize = 14, autoFit = True,
       bgColor = ''#000000'', textColor = ''#ffffff'' \<rparr>"

definition example_env :: "proc_result \<Rightarrow> string + string \<Rightarrow> int env" where
  "example_env child output =
     \<lparr> fileBytes = (\<lambda>p. if p = ''/app/python_bridge.py'' then Some ''import sys''
                       else if p = ''/img/a.png'' \<or> p = ''/img/b.png'' then Some ''PNG''
                       else None),
       isDirectory = (\<lambda>p. p = ''/tmp/ansi-ascii-art-generator''),
       mkdirSync = (\<lambda>p. True),
       readFileSync = (\<lambda>p. output),
       spawn = (\<lambda>cmd args. child),
       dirname = ''/app'',
       isPackaged = False,
       resourcesPath = ''/app/resources'',
       tempPath = ''/tmp'',
       now = ''1700000000000'',
       pathJoin = (\<lambda>a b. a @ ''/'' @ b),
       Number_toString = show_int,
       JSON_stringify = json_settings,
       JSON_parse = (\<lambda>str. if str = ''[]'' then Some (JArray []) else None),
       parseInt = (\<lambda>str. int (Number_of_digits str)),
       String_trim = trim_latin1 \<rparr>"

definition initial_state :: "int main_state" where
  "initial_state =
     \<lparr> processCache = [], lastSettings = example_settings, optimizeMemory = Some True,
       systemPythonPath = None, spawned = [] \<rparr>"

section \<open>Properties\<close>

subsection \<open>The cache\<close>

lemma Map_has_get: "Map_has c k \<longleftrightarrow> Map_get c k \<noteq> None"
  by (simp add: Map_has_def Map_get_def Map_keys_def map_of_eq_None_iff)

lemma Map_keys_Map_set:
  "Map_keys (Map_set k v c) = (if k \<in> set (Map_keys c) then Map_keys c else Map_keys c @ [k])"
  by (induction c) (auto simp: Map_keys_def)

lemma Map_set_new: "k \<notin> set (Map_keys c) \<Longrightarrow> Map_set k v c = c @ [(k, v)]"
  by (induction c) (auto simp: Map_keys_def)

lemma wf_cache_Map_set: "wf_cache c \<Longrightarrow> wf_cache (Map_set k v c)"
  by (simp add: wf_cache_def Map_keys_Map_set)

lemma Map_get_Map_set: "Map_get (Map_set k v c) k' = (if k' = k then Some v else Map_get c k')"
  by (induction c) (auto simp: Map_get_def)

lemma Map_delete_absent: "k \<notin> fst ` set c \<Longrightarrow> Map_delete k c = c"
  by (induction c) (auto simp: Map_delete_def)

lemma fold_delete_take:
  "distinct (map fst c) \<Longrightarrow> fold Map_delete (take n (map fst c)) c = drop n c"
proof (induction c arbitrary: n)
  case Nil
  then show ?case by simp
next
  case (Cons e c)
  show ?case
  proof (cases n)
    case 0
    then show ?thesis by simp
  next
    case (Suc m)
    from Cons.prems have notin: "fst e \<notin> fst ` set c" and d: "distinct (map fst c)"
      by auto
    have "Map_delete (fst e) (e # c) = c"
      using Map_delete_absent [OF notin] by (simp add: Map_delete_def)
    with Suc Cons.IH [OF d, of m] show ?thesis by simp
  qed
qed

lemma limit_cache_drop: "wf_cache c \<Longrightarrow> limit_cache c = drop (length c - 10) c"
  by (simp add: limit_cache_def wf_cache_def Map_keys_def Map_size_def fold_delete_take Let_def)

lemma length_limit_cache: "wf_cache c \<Longrightarrow> length (limit_cache c) \<le> 10"
  by (simp add: limit_cache_drop)

lemma wf_cache_limit: "wf_cache c \<Longrightarrow> wf_cache (limit_cache c)"
  by (simp add: limit_cache_drop) (simp add: wf_cache_def Map_keys_def distinct_drop flip: drop_map)

lemma wf_cache_store: "wf_cache c \<Longrightarrow> wf_cache (cache_store k v c)"
  by (simp add: cache_store_def wf_cache_limit wf_cache_Map_set)

lemma length_cache_store: "wf_cache c \<Longrightarrow> length (cache_store k v c) \<le> 10"
  by (simp add: cache_store_def length_limit_cache wf_cache_Map_set)

lemma cache_store_new:
  assumes "wf_cache c" "k \<notin> set (Map_keys c)"
  shows "cache_store k v c = drop (Suc (length c) - 10) (c @ [(k, v)])"
proof -
  have "wf_cache (Map_set k v c)" using assms(1) by (rule wf_cache_Map_set)
  then show ?thesis
    by (simp add: cache_store_def limit_cache_drop Map_set_new [OF assms(2)])
qed

lemma Map_get_cache_store_new:
  assumes "wf_cache c" "k \<notin> set (Map_keys c)"
  shows "Map_get (cache_store k v c) k = Some v"
proof -
  have d: "distinct (map fst (c @ [(k, v)]))"
    using assms by (simp add: wf_cache_def Map_keys_def)
  have "(k, v) \<in> set (drop (Suc (length c) - 10) (c @ [(k, v)]))"
    by simp
  moreover have "distinct (map fst (drop (Suc (length c) - 10) (c @ [(k, v)])))"
    using distinct_drop [OF d] by (simp only: drop_map)
  ultimately show ?thesis
    by (simp add: cache_store_new [OF assms] Map_get_def del: drop_append)
qed

lemma store_all_drop:
  "wf_cache c \<Longrightarrow> distinct (map fst kvs) \<Longrightarrow> set (map fst kvs) \<inter> set (Map_keys c) = {}
   \<Longrightarrow> length c \<le> 10
   \<Longrightarrow> store_all kvs c = drop (length c + length kvs - 10) (c @ kvs)"
proof (induction kvs arbitrary: c)
  case Nil
  then show ?case by (simp add: store_all_def)
next
  case (Cons e kvs)
  define m where "m = Suc (length c) - 10"
  define c' where "c' = cache_store (fst e) (snd e) c"
  have fresh: "fst e \<notin> set (Map_keys c)" using Cons.prems(3) by auto
  have c': "c' = drop m (c @ [e])"
    unfolding c'_def m_def using cache_store_new [OF Cons.prems(1) fresh, of "snd e"] by simp
  have wf': "wf_cache c'" unfolding c'_def using Cons.prems(1) by (rule wf_cache_store)
  have d': "distinct (map fst kvs)" using Cons.prems(2) by simp
  have sub: "set (Map_keys c') \<subseteq> set (Map_keys c) \<union> {fst e}"
    unfolding c' Map_keys_def using set_drop_subset [of m "c @ [e]"] by auto
  have disj: "set (map fst kvs) \<inter> set (Map_keys c') = {}"
  proof (rule ccontr)
    assume "set (map fst kvs) \<inter> set (Map_keys c') \<noteq> {}"
    then obtain k where k: "k \<in> set (map fst kvs)" "k \<in> set (Map_keys c')" by blast
    from k(2) sub have "k \<in> set (Map_keys c) \<or> k = fst e" by blast
    then show False
    proof
      assume "k \<in> set (Map_keys c)"
      with k(1) Cons.prems(3) show False by auto
    next
      assume "k = fst e"
      with k(1) Cons.prems(2) show False by simp
    qed
  qed
  have mle: "m \<le> length c" by (simp add: m_def)
  have len': "length c' \<le> 10" unfolding c'_def using Cons.prems(1) by (rule length_cache_store)
  have len: "length c' = Suc (length c) - m" by (simp add: c')
  have app: "c' @ kvs = drop m (c @ e # kvs)" using mle by (simp add: c')
  have "store_all (e # kvs) c = store_all kvs c'"
    by (simp add: store_all_def c'_def)
  also have "\<dots> = drop (length c' + length kvs - 10) (c' @ kvs)"
    by (rule Cons.IH [OF wf' d' disj len'])
  also have "\<dots> = drop (length c' + length kvs - 10 + m) (c @ e # kvs)"
    by (simp only: app drop_drop)
  also have "length c' + length kvs - 10 + m = length c + length (e # kvs) - 10"
    unfolding len m_def by simp
  finally show ?case .
qed

lemma store_all_eleven:
  assumes "wf_cache c" "distinct (map fst kvs)" "set (map fst kvs) \<inter> set (Map_keys c) = {}"
    "length c \<le> 10" "length kvs = 11"
  shows "store_all kvs c = tl kvs"
proof -
  have "store_all kvs c = drop (length c + 1) (c @ kvs)"
    using store_all_drop [OF assms(1-4)] assms(5) by simp
  also have "\<dots> = drop 1 kvs" by simp
  finally show ?thesis by (simp add: drop_Suc)
qed

lemma process_image_hit:
  "Map_get (processCache s) (getCacheKey env imagePath settings) = Some cached
   \<Longrightarrow> process_image env s imagePath settings = (Resolved cached, s)"
  by (simp add: process_image_def Let_def)

lemma process_image_cache_frame:
  "process_image env s imagePath settings = (out, s') \<Longrightarrow>
     processCache s' = processCache s \<or>
     (\<exists>result. out = Resolved result \<and>
        Map_get (processCache s) (getCacheKey env imagePath settings) = None \<and>
        processCache s' =
          cache_store (getCacheKey env imagePath settings) result (processCache s))"
  by (auto simp: process_image_def on_process_end_def Let_def
      split: option.splits if_splits proc_result.splits sum.splits)

lemma process_image_not_resolved_frame:
  "process_image env s imagePath settings = (out, s') \<Longrightarrow> \<forall>r. out \<noteq> Resolved r \<Longrightarrow>
     processCache s' = processCache s"
  using process_image_cache_frame by blast

lemma process_image_wf:
  "wf_cache (processCache s) \<Longrightarrow> wf_cache (processCache (snd (process_image env s imagePath settings)))"
  using process_image_cache_frame [of env s imagePath settings
      "fst (process_image env s imagePath settings)" "snd (process_image env s imagePath settings)"]
  by (auto simp: wf_cache_store)

lemma process_image_size:
  "wf_cache (processCache s) \<Longrightarrow> Map_size (processCache s) \<le> 10 \<Longrightarrow>
   Map_size (processCache (snd (process_image env s imagePath settings))) \<le> 10"
  using process_image_cache_frame [of env s imagePath settings
      "fst (process_image env s imagePath settings)" "snd (process_image env s imagePath settings)"]
  by (auto simp: Map_size_def length_cache_store)

lemma process_image_miss_resolved:
  assumes "Map_get (processCache s) (getCacheKey env imagePath settings) = None"
    and "process_image env s imagePath settings = (Resolved result, s')"
  shows "processCache s' =
           cache_store (getCacheKey env imagePath settings) result (processCache s)"
  using assms
  by (auto simp: process_image_def on_process_end_def Let_def
      split: option.splits if_splits proc_result.splits sum.splits)

lemma process_image_then_hit:
  assumes wf: "wf_cache (processCache s)"
    and run: "process_image env s imagePath settings = (Resolved out, s1)"
  shows "Map_get (processCache s1) (getCacheKey env imagePath settings) = Some out"
proof (cases "Map_get (processCache s) (getCacheKey env imagePath settings)")
  case (Some cached)
  with run show ?thesis by (simp add: process_image_def Let_def)
next
  case None
  then have fresh: "getCacheKey env imagePath settings \<notin> set (Map_keys (processCache s))"
    by (simp add: Map_get_def Map_keys_def map_of_eq_None_iff)
  from process_image_miss_resolved [OF None run]
  show ?thesis using Map_get_cache_store_new [OF wf fresh] by simp
qed

subsection \<open>Claims about \<^verbatim>\<open>process-image\<close>\<close>

text \<open>
  C1. When the cache key of the image path and the settings is present in the result cache,
  \<^verbatim>\<open>process-image\<close> resolves with the stored string and leaves the whole state as it was:
  nothing is spawned and no cache entry changes. Hence a call that resolved with some
  output, repeated at once with the same image path and settings, resolves with the same
  output from the cache, whatever the outside world would answer then.
\<close>

theorem process_image_cache_hit:
  "(Map_has (processCache s) (getCacheKey env imagePath settings) \<longrightarrow>
      (\<exists>cached. Map_get (processCache s) (getCacheKey env imagePath settings) = Some cached \<and>
         process_image env s imagePath settings = (Resolved cached, s)))
   \<and> (wf_cache (processCache s) \<and>
        process_image env s imagePath settings = (Resolved out, s1) \<and>
        getCacheKey env' imagePath settings = getCacheKey env imagePath settings \<longrightarrow>
        process_image env' s1 imagePath settings = (Resolved out, s1))"
proof (intro conjI impI)
  assume "Map_has (processCache s) (getCacheKey env imagePath settings)"
  then obtain cached
    where c: "Map_get (processCache s) (getCacheKey env imagePath settings) = Some cached"
    by (auto simp: Map_has_get)
  with process_image_hit [OF c]
  show "\<exists>cached. Map_get (processCache s) (getCacheKey env imagePath settings) = Some cached \<and>
         process_image env s imagePath settings = (Resolved cached, s)"
    by simp
next
  assume a: "wf_cache (processCache s) \<and>
        process_image env s imagePath settings = (Resolved out, s1) \<and>
        getCacheKey env' imagePath settings = getCacheKey env imagePath settings"
  then have "Map_get (processCache s1) (getCacheKey env' imagePath settings) = Some out"
    using process_image_then_hit [of s env imagePath settings out s1] by simp
  then show "process_image env' s1 imagePath settings = (Resolved out, s1)"
    by (rule process_image_hit)
qed

lemma example_key_fresh:
  "Map_get (processCache initial_state) k = None"
  by (simp add: initial_state_def Map_get_def)

lemma example_paths:
  "bridgeScript (getPythonPath (example_env child output) s) = ''/app/python_bridge.py''"
  "existsSync (example_env child output) ''/app/python_bridge.py''"
  "existsSync (example_env child output) ''/img/a.png''"
  "existsSync (example_env child output) ''/img/b.png''"
  "existsSync (example_env child output) (tmp_dir (example_env child output))"
  "spawn (example_env child output) cmd args = child"
  "readFileSync (example_env child output) f = output"
  by (simp_all add: getPythonPath_def example_env_def existsSync_def tmp_dir_def)

lemma example_conversion:
  "fst (process_image (example_env (Closed (Some 0) [] []) (Inr ''ART'')) initial_state
          ''/img/a.png'' example_settings) = Resolved ''ART''"
  by (simp add: process_image_def example_key_fresh example_paths Let_def on_process_end_def)

theorem process_image_cache_hit_witness:
  "Map_has [(getCacheKey (example_env (SpawnError ''ENOENT'') (Inl ''ENOENT'')) ''/img/a.png'' example_settings, ''ART'')]
      (getCacheKey (example_env (SpawnError ''ENOENT'') (Inl ''ENOENT'')) ''/img/a.png'' example_settings)
   \<and> process_image (example_env (SpawnError ''ENOENT'') (Inl ''ENOENT''))
        (initial_state\<lparr>processCache :=
           [(getCacheKey (example_env (SpawnError ''ENOENT'') (Inl ''ENOENT'')) ''/img/a.png'' example_settings, ''ART'')]\<rparr>)
        ''/img/a.png'' example_settings
      = (Resolved ''ART'',
         initial_state\<lparr>processCache :=
           [(getCacheKey (example_env (SpawnError ''ENOENT'') (Inl ''ENOENT'')) ''/img/a.png'' example_settings, ''ART'')]\<rparr>)
   \<and> wf_cache (processCache initial_state)
   \<and> fst (process_image (example_env (Closed (Some 0) [] []) (Inr ''ART'')) initial_state
          ''/img/a.png'' example_settings) = Resolved ''ART''
   \<and> process_image (example_env (SpawnError ''ENOENT'') (Inl ''ENOENT''))
        (snd (process_image (example_env (Closed (Some 0) [] []) (Inr ''ART'')) initial_state
          ''/img/a.png'' example_settings))
        ''/img/a.png'' example_settings
      = (Resolved ''ART'',
         snd (process_image (example_env (Closed (Some 0) [] []) (Inr ''ART'')) initial_state
          ''/img/a.png'' example_settings))"
proof -
  let ?bad = "example_env (SpawnError ''ENOENT'') (Inl ''ENOENT'') :: int env"
  let ?ok = "example_env (Closed (Some 0) [] []) (Inr ''ART'') :: int env"
  let ?k = "getCacheKey ?bad ''/img/a.png'' example_settings"
  let ?s = "initial_state\<lparr>processCache := [(?k, ''ART'')]\<rparr>"
  let ?r = "process_image ?ok initial_state ''/img/a.png'' example_settings"
  have has: "Map_has (processCache ?s) ?k"
    by (simp add: Map_has_def Map_keys_def)
  have wf: "wf_cache (processCache initial_state)"
    by (simp add: wf_cache_def Map_keys_def initial_state_def)
  have run: "?r = (Resolved ''ART'', snd ?r)"
    using example_conversion by (simp add: prod_eq_iff)
  have key: "getCacheKey ?bad ''/img/a.png'' example_settings
             = getCacheKey ?ok ''/img/a.png'' example_settings"
    by (simp add: getCacheKey_def example_env_def)
  have h1: "\<exists>cached. Map_get (processCache ?s) ?k = Some cached \<and>
             process_image ?bad ?s ''/img/a.png'' example_settings = (Resolved cached, ?s)"
    using process_image_cache_hit [where s = ?s and env = ?bad and imagePath = "''/img/a.png''"
        and settings = example_settings] has by blast
  have h2: "process_image ?bad (snd ?r) ''/img/a.png'' example_settings = (Resolved ''ART'', snd ?r)"
    using process_image_cache_hit [where s = initial_state and env = ?ok
        and imagePath = "''/img/a.png''" and settings = example_settings
        and out = "''ART''" and ?s1.0 = "snd ?r" and env' = ?bad] wf run key by blast
  from h1 have h3: "process_image ?bad ?s ''/img/a.png'' example_settings = (Resolved ''ART'', ?s)"
    by (simp add: Map_get_def)
  from has h3 wf example_conversion h2 show ?thesis by simp
qed

text \<open>
  C2. The result cache holds at most 10 entries after every call of \<^verbatim>\<open>process-image\<close>
  that found at most 10, so at every moment from the empty cache on. A conversion that
  completes stores its result with \<open>cache_store\<close>, and eviction is oldest first: after 11
  results with distinct new keys have been stored in a cache, the first of the 11 keys is
  absent and the cache holds exactly the other 10, in the order of their insertion.
\<close>

theorem cache_capacity_and_eviction:
  "(wf_cache (processCache s) \<and> Map_size (processCache s) \<le> 10 \<longrightarrow>
      wf_cache (processCache (snd (process_image env s imagePath settings))) \<and>
      Map_size (processCache (snd (process_image env s imagePath settings))) \<le> 10)
   \<and> (Map_get (processCache s) (getCacheKey env imagePath settings) = None \<and>
       process_image env s imagePath settings = (Resolved result, s') \<longrightarrow>
       processCache s' = cache_store (getCacheKey env imagePath settings) result (processCache s))
   \<and> (wf_cache c \<and> Map_size c \<le> 10 \<and> distinct (map fst kvs) \<and>
        set (map fst kvs) \<inter> set (Map_keys c) = {} \<and> length kvs = 11 \<longrightarrow>
        \<not> Map_has (store_all kvs c) (fst (hd kvs)) \<and>
        (\<forall>k \<in> set (tl (map fst kvs)). Map_has (store_all kvs c) k) \<and>
        Map_keys (store_all kvs c) = tl (map fst kvs))"
proof (intro conjI impI)
  assume a: "wf_cache (processCache s) \<and> Map_size (processCache s) \<le> 10"
  then show "wf_cache (processCache (snd (process_image env s imagePath settings)))"
    by (simp add: process_image_wf)
  from a show "Map_size (processCache (snd (process_image env s imagePath settings))) \<le> 10"
    by (simp add: process_image_size)
next
  assume "Map_get (processCache s) (getCacheKey env imagePath settings) = None \<and>
       process_image env s imagePath settings = (Resolved result, s')"
  then show "processCache s' =
      cache_store (getCacheKey env imagePath settings) result (processCache s)"
    using process_image_miss_resolved by blast
next
  assume a: "wf_cache c \<and> Map_size c \<le> 10 \<and> distinct (map fst kvs) \<and>
        set (map fst kvs) \<inter> set (Map_keys c) = {} \<and> length kvs = 11"
  then have eq: "store_all kvs c = tl kvs"
    using store_all_eleven [of c kvs] by (simp add: Map_size_def)
  from a obtain e rest where kvs: "kvs = e # rest" by (cases kvs) auto
  with a have notin: "fst e \<notin> fst ` set rest" by simp
  from eq kvs have eq': "store_all (e # rest) c = rest" by simp
  show "\<not> Map_has (store_all kvs c) (fst (hd kvs))"
    using notin by (simp add: kvs eq' Map_has_def Map_keys_def)
  show "\<forall>k \<in> set (tl (map fst kvs)). Map_has (store_all kvs c) k"
    by (simp add: kvs eq' Map_has_def Map_keys_def)
  show "Map_keys (store_all kvs c) = tl (map fst kvs)"
    by (simp add: kvs eq' Map_keys_def)
qed

theorem cache_capacity_and_eviction_witness:
  "wf_cache (processCache initial_state) \<and> Map_size (processCache initial_state) \<le> 10
   \<and> Map_size (processCache (snd (process_image (example_env (Closed (Some 0) [] []) (Inr ''ART''))
         initial_state ''/img/a.png'' example_settings))) \<le> 10
   \<and> Map_get (processCache initial_state)
         (getCacheKey (example_env (Closed (Some 0) [] []) (Inr ''ART'')) ''/img/a.png'' example_settings) = None
   \<and> fst (process_image (example_env (Closed (Some 0) [] []) (Inr ''ART''))
         initial_state ''/img/a.png'' example_settings) = Resolved ''ART''
   \<and> processCache (snd (process_image (example_env (Closed (Some 0) [] []) (Inr ''ART''))
         initial_state ''/img/a.png'' example_settings))
       = [(getCacheKey (example_env (Closed (Some 0) [] []) (Inr ''ART'')) ''/img/a.png'' example_settings,
           ''ART'')]
   \<and> wf_cache [] \<and> Map_size [] \<le> 10
   \<and> distinct (map fst (map (\<lambda>k. (k, ''art'')) [''a'', ''b'', ''c'', ''d'', ''e'', ''f'', ''g'', ''h'', ''i'', ''j'', ''k'']))
   \<and> set (map fst (map (\<lambda>k. (k, ''art'')) [''a'', ''b'', ''c'', ''d'', ''e'', ''f'', ''g'', ''h'', ''i'', ''j'', ''k''])) \<inter> set (Map_keys []) = {}
   \<and> length (map (\<lambda>k. (k, ''art'')) [''a'', ''b'', ''c'', ''d'', ''e'', ''f'', ''g'', ''h'', ''i'', ''j'', ''k'']) = 11
   \<and> \<not> Map_has (store_all (map (\<lambda>k. (k, ''art'')) [''a'', ''b'', ''c'', ''d'', ''e'', ''f'', ''g'', ''h'', ''i'', ''j'', ''k'']) []) ''a''
   \<and> Map_keys (store_all (map (\<lambda>k. (k, ''art'')) [''a'', ''b'', ''c'', ''d'', ''e'', ''f'', ''g'', ''h'', ''i'', ''j'', ''k'']) [])
       = [''b'', ''c'', ''d'', ''e'', ''f'', ''g'', ''h'', ''i'', ''j'', ''k'']"
proof -
  let ?kvs = "map (\<lambda>k. (k, ''art'')) [''a'', ''b'', ''c'', ''d'', ''e'', ''f'', ''g'', ''h'', ''i'', ''j'', ''k'']"
  let ?ok = "example_env (Closed (Some 0) [] []) (Inr ''ART'') :: int env"
  have s0: "wf_cache (processCache initial_state) \<and> Map_size (processCache initial_state) \<le> 10"
    by (simp add: wf_cache_def Map_keys_def Map_size_def initial_state_def)
  have c0: "wf_cache [] \<and> Map_size [] \<le> 10"
    by (simp add: wf_cache_def Map_keys_def Map_size_def)
  have d: "distinct (map fst ?kvs)" by simp
  have i: "set (map fst ?kvs) \<inter> set (Map_keys []) = {}" by (simp add: Map_keys_def)
  have l: "length ?kvs = 11" by simp
  let ?r = "process_image ?ok initial_state ''/img/a.png'' example_settings"
  have run: "?r = (Resolved ''ART'', snd ?r)"
    using example_conversion by (simp add: prod_eq_iff)
  note inst = cache_capacity_and_eviction [where s = initial_state and env = ?ok
      and imagePath = "''/img/a.png''" and settings = example_settings and c = "[]" and kvs = ?kvs
      and result = "''ART''" and s' = "snd ?r"]
  from inst example_key_fresh run
  have "processCache (snd ?r)
        = cache_store (getCacheKey ?ok ''/img/a.png'' example_settings) ''ART''
            (processCache initial_state)"
    by blast
  then have st: "processCache (snd ?r)
        = [(getCacheKey ?ok ''/img/a.png'' example_settings, ''ART'')]"
    by (simp add: initial_state_def cache_store_def limit_cache_def Map_size_def)
  from inst s0 have b: "Map_size (processCache (snd (process_image ?ok initial_state ''/img/a.png'' example_settings))) \<le> 10"
    by blast
  from inst c0 d i l have e: "\<not> Map_has (store_all ?kvs []) (fst (hd ?kvs)) \<and>
      Map_keys (store_all ?kvs []) = tl (map fst ?kvs)"
    by blast
  from e have e1: "\<not> Map_has (store_all ?kvs []) ''a''" by simp
  from e have e2: "Map_keys (store_all ?kvs []) = [''b'', ''c'', ''d'', ''e'', ''f'', ''g'', ''h'', ''i'', ''j'', ''k'']"
    by simp
  from s0 b example_key_fresh example_conversion st c0 d i l e1 e2 show ?thesis by blast
qed

text \<open>
  C6. A failed conversion is atomic. When the cache key is not in the cache: a missing bridge
  script and a missing image file reject with the message that names the file and leave the
  whole state as it was; a child that ends with a code other than 0 rejects with the text
  the child wrote on stderr, and an unreadable output file rejects with the message of the
  read error, both with the cache as it was. Whatever the path, a call that rejects
  leaves the cache unchanged, and so does one that never settles.
\<close>

theorem process_image_failure_atomic:
  assumes miss: "Map_get (processCache s) (getCacheKey env imagePath settings) = None"
  shows
  "(\<not> existsSync env (bridgeScript (getPythonPath env s)) \<longrightarrow>
      process_image env s imagePath settings =
        (Rejected (''Bridge script not found: '' @ bridgeScript (getPythonPath env s)), s))
   \<and> (existsSync env (bridgeScript (getPythonPath env s)) \<and> \<not> existsSync env imagePath \<longrightarrow>
      process_image env s imagePath settings =
        (Rejected (''Image file not found: '' @ imagePath), s))
   \<and> (existsSync env (bridgeScript (getPythonPath env s)) \<and> existsSync env imagePath \<and>
       (existsSync env (tmp_dir env) \<or> mkdirSync env (tmp_dir env)) \<and>
       spawn env (pythonPath (getPythonPath env s)) (python_args env s imagePath settings)
         = Closed code stdoutData stderrData \<and> code \<noteq> Some 0 \<longrightarrow>
      fst (process_image env s imagePath settings) =
        Rejected (''Python error: '' @ (if stderrData = [] then ''Unknown error'' else stderrData)) \<and>
      processCache (snd (process_image env s imagePath settings)) = processCache s)
   \<and> (existsSync env (bridgeScript (getPythonPath env s)) \<and> existsSync env imagePath \<and>
       (existsSync env (tmp_dir env) \<or> mkdirSync env (tmp_dir env)) \<and>
       spawn env (pythonPath (getPythonPath env s)) (python_args env s imagePath settings)
         = Closed (Some 0) stdoutData stderrData \<and>
       readFileSync env (output_file env) = Inl msg \<longrightarrow>
      fst (process_image env s imagePath settings) =
        Rejected (''Failed to read output file: '' @ msg) \<and>
      processCache (snd (process_image env s imagePath settings)) = processCache s)
   \<and> (\<forall>out s'. process_image env s imagePath settings = (out, s') \<and> (\<forall>r. out \<noteq> Resolved r) \<longrightarrow>
        processCache s' = processCache s)"
proof (intro conjI impI allI)
  assume "\<not> existsSync env (bridgeScript (getPythonPath env s))"
  with miss show "process_image env s imagePath settings =
        (Rejected (''Bridge script not found: '' @ bridgeScript (getPythonPath env s)), s)"
    by (simp add: process_image_def Let_def)
next
  assume "existsSync env (bridgeScript (getPythonPath env s)) \<and> \<not> existsSync env imagePath"
  with miss show "process_image env s imagePath settings =
        (Rejected (''Image file not found: '' @ imagePath), s)"
    by (simp add: process_image_def Let_def)
next
  assume a: "existsSync env (bridgeScript (getPythonPath env s)) \<and> existsSync env imagePath \<and>
       (existsSync env (tmp_dir env) \<or> mkdirSync env (tmp_dir env)) \<and>
       spawn env (pythonPath (getPythonPath env s)) (python_args env s imagePath settings)
         = Closed code stdoutData stderrData \<and> code \<noteq> Some 0"
  with miss show "fst (process_image env s imagePath settings) =
        Rejected (''Python error: '' @ (if stderrData = [] then ''Unknown error'' else stderrData))"
    by (auto simp: process_image_def Let_def on_process_end_def)
  from miss a show "processCache (snd (process_image env s imagePath settings)) = processCache s"
    by (auto simp: process_image_def Let_def on_process_end_def)
next
  assume a: "existsSync env (bridgeScript (getPythonPath env s)) \<and> existsSync env imagePath \<and>
       (existsSync env (tmp_dir env) \<or> mkdirSync env (tmp_dir env)) \<and>
       spawn env (pythonPath (getPythonPath env s)) (python_args env s imagePath settings)
         = Closed (Some 0) stdoutData stderrData \<and>
       readFileSync env (output_file env) = Inl msg"
  with miss show "fst (process_image env s imagePath settings) =
        Rejected (''Failed to read output file: '' @ msg)"
    by (auto simp: process_image_def Let_def on_process_end_def)
  from miss a show "processCache (snd (process_image env s imagePath settings)) = processCache s"
    by (auto simp: process_image_def Let_def on_process_end_def)
next
  fix out s'
  assume "process_image env s imagePath settings = (out, s') \<and> (\<forall>r. out \<noteq> Resolved r)"
  then show "processCache s' = processCache s"
    using process_image_not_resolved_frame by blast
qed


theorem process_image_failure_atomic_witness:
  "Map_get (processCache initial_state)
      (getCacheKey (example_env (Closed (Some 1) [] ''ValueError'') (Inl ''ENOENT'')) ''/img/a.png'' example_settings) = None
   \<and> \<not> existsSync ((example_env (Closed (Some 1) [] ''ValueError'') (Inl ''ENOENT''))\<lparr>fileBytes := (\<lambda>p. None)\<rparr>)
          ''/app/python_bridge.py''
   \<and> process_image ((example_env (Closed (Some 1) [] ''ValueError'') (Inl ''ENOENT''))\<lparr>fileBytes := (\<lambda>p. None)\<rparr>)
        initial_state ''/img/a.png'' example_settings
       = (Rejected ''Bridge script not found: /app/python_bridge.py'', initial_state)
   \<and> \<not> existsSync (example_env (Closed (Some 1) [] ''ValueError'') (Inl ''ENOENT'')) ''/img/missing.png''
   \<and> process_image (example_env (Closed (Some 1) [] ''ValueError'') (Inl ''ENOENT''))
        initial_state ''/img/missing.png'' example_settings
       = (Rejected ''Image file not found: /img/missing.png'', initial_state)
   \<and> existsSync (example_env (Closed (Some 1) [] ''ValueError'') (Inl ''ENOENT'')) ''/img/a.png''
   \<and> (Some 1 :: int option) \<noteq> Some 0
   \<and> fst (process_image (example_env (Closed (Some 1) [] ''ValueError'') (Inl ''ENOENT''))
        initial_state ''/img/a.png'' example_settings) = Rejected ''Python error: ValueError''
   \<and> processCache (snd (process_image (example_env (Closed (Some 1) [] ''ValueError'') (Inl ''ENOENT''))
        initial_state ''/img/a.png'' example_settings)) = []
   \<and> readFileSync (example_env (Closed (Some 0) [] []) (Inl ''ENOENT'')) 
         (output_file (example_env (Closed (Some 0) [] []) (Inl ''ENOENT''))) = Inl ''ENOENT''
   \<and> fst (process_image (example_env (Closed (Some 0) [] []) (Inl ''ENOENT''))
        initial_state ''/img/a.png'' example_settings) = Rejected ''Failed to read output file: ENOENT''
   \<and> processCache (snd (process_image (example_env (Closed (Some 0) [] []) (Inl ''ENOENT''))
        initial_state ''/img/a.png'' example_settings)) = []"
proof -
  let ?e1 = "example_env (Closed (Some 1) [] ''ValueError'') (Inl ''ENOENT'') :: int env"
  let ?e0 = "?e1\<lparr>fileBytes := (\<lambda>p. None)\<rparr>"
  let ?e2 = "example_env (Closed (Some 0) [] []) (Inl ''ENOENT'') :: int env"
  have miss: "Map_get (processCache initial_state) k = None" for k
    by (rule example_key_fresh)
  have nobridge: "\<not> existsSync ?e0 (bridgeScript (getPythonPath ?e0 initial_state))"
    and b0: "bridgeScript (getPythonPath ?e0 initial_state) = ''/app/python_bridge.py''"
    by (simp_all add: existsSync_def example_env_def getPythonPath_def)
  have noimage: "\<not> existsSync ?e1 ''/img/missing.png''"
    by (simp add: existsSync_def example_env_def)
  have c0: "processCache initial_state = []" by (simp add: initial_state_def)
  note t0 = process_image_failure_atomic [OF miss, where env = ?e0 and imagePath = "''/img/a.png''"
      and settings = example_settings]
  note t1 = process_image_failure_atomic [OF miss, where env = ?e1 and imagePath = "''/img/missing.png''"
      and settings = example_settings]
  note t2 = process_image_failure_atomic [OF miss, where env = ?e1 and imagePath = "''/img/a.png''"
      and settings = example_settings and code = "Some 1" and stdoutData = "[]"
      and stderrData = "''ValueError''"]
  note t3 = process_image_failure_atomic [OF miss, where env = ?e2 and imagePath = "''/img/a.png''"
      and settings = example_settings and stdoutData = "[]" and stderrData = "[]"
      and msg = "''ENOENT''"]
  from t0 nobridge have r0: "process_image ?e0 initial_state ''/img/a.png'' example_settings
       = (Rejected ''Bridge script not found: /app/python_bridge.py'', initial_state)"
    by (simp add: b0)
  from t1 noimage have r1: "process_image ?e1 initial_state ''/img/missing.png'' example_settings
       = (Rejected ''Image file not found: /img/missing.png'', initial_state)"
    by (simp add: example_paths)
  from t2 have r2: "fst (process_image ?e1 initial_state ''/img/a.png'' example_settings)
        = Rejected ''Python error: ValueError''
      \<and> processCache (snd (process_image ?e1 initial_state ''/img/a.png'' example_settings)) = []"
    by (simp add: example_paths c0)
  from t3 have r3: "fst (process_image ?e2 initial_state ''/img/a.png'' example_settings)
        = Rejected ''Failed to read output file: ENOENT''
      \<and> processCache (snd (process_image ?e2 initial_state ''/img/a.png'' example_settings)) = []"
    by (simp add: example_paths c0)
  from nobridge b0 have nb: "\<not> existsSync ?e0 ''/app/python_bridge.py''" by simp
  from miss nb r0 noimage r1 r2 r3 show ?thesis
    by (simp add: example_paths)
qed

text \<open>
  C3 (as the specification states it, refuted). The cache key is not computed from the
  bytes of the image: two files with the same bytes at different paths, converted with
  the same settings, get different keys.
\<close>

theorem getCacheKey_same_bytes_counterexample:
  "fileBytes (example_env (Closed (Some 0) [] []) (Inr ''ART'')) ''/img/a.png''
     = fileBytes (example_env (Closed (Some 0) [] []) (Inr ''ART'')) ''/img/b.png''
   \<and> fileBytes (example_env (Closed (Some 0) [] []) (Inr ''ART'')) ''/img/a.png'' = Some ''PNG''
   \<and> getCacheKey (example_env (Closed (Some 0) [] []) (Inr ''ART'')) ''/img/a.png'' example_settings
     \<noteq> getCacheKey (example_env (Closed (Some 0) [] []) (Inr ''ART'')) ''/img/b.png'' example_settings"
  by (simp add: example_env_def getCacheKey_def)

text \<open>
  C3 (amended). The cache key is the path of the image file, a colon and the serialized
  settings, so it is the same on every call with the same path and settings; and for
  equal settings two keys are equal exactly when the two paths are equal, whatever the
  files hold.
\<close>

theorem getCacheKey_by_path:
  "getCacheKey env imagePath settings = imagePath @ '':'' @ JSON_stringify env settings
   \<and> (getCacheKey env p1 settings = getCacheKey env p2 settings \<longleftrightarrow> p1 = p2)"
  by (simp add: getCacheKey_def)

theorem getCacheKey_by_path_witness:
  "getCacheKey (example_env (Closed (Some 0) [] []) (Inr ''ART'')) ''/img/a.png'' example_settings
     = getCacheKey (example_env (Closed (Some 0) [] []) (Inr ''ART'')) ''/img/a.png'' example_settings
   \<and> getCacheKey (example_env (Closed (Some 0) [] []) (Inr ''ART'')) ''/img/a.png'' example_settings
     \<noteq> getCacheKey (example_env (Closed (Some 0) [] []) (Inr ''ART'')) ''/img/b.png'' example_settings"
  using getCacheKey_by_path [where env = "example_env (Closed (Some 0) [] []) (Inr ''ART'')"
      and ?p1.0 = "''/img/a.png''" and ?p2.0 = "''/img/b.png''" and settings = example_settings]
  by simp

lemma show_int_examples:
  "show_int 0 = ''0''" "show_int 1 = ''1''" "show_int 75 = ''75''" "show_int 100 = ''100''"
  by (simp_all add: show_int_def show_nat.simps)

lemma example_env_fields:
  "Number_toString (example_env child output) = show_int"
  "JSON_stringify (example_env child output) = json_settings"
  "output_file (example_env child output)
     = ''/tmp/ansi-ascii-art-generator/output-1700000000000.txt''"
  "pythonPath (getPythonPath (example_env child output) initial_state) = ''python''"
  by (simp_all add: example_env_def output_file_def tmp_dir_def getPythonPath_def
      initial_state_def)

lemma example_state_fields:
  "optimizeMemory initial_state = Some True" "spawned initial_state = []"
  "processCache initial_state = []"
  by (simp_all add: initial_state_def)

lemma python_args_customChars:
  "python_args env s imagePath (settings\<lparr>customChars := chars\<rparr>) = python_args env s imagePath settings"
  by (simp add: python_args_def build_args_def)

lemma process_image_reaches_child:
  assumes "Map_get (processCache s) (getCacheKey env imagePath settings) = None"
    and "existsSync env (bridgeScript (getPythonPath env s))"
    and "existsSync env imagePath"
    and "existsSync env (tmp_dir env) \<or> mkdirSync env (tmp_dir env)"
  shows "process_image env s imagePath settings =
     on_process_end env
       (s\<lparr>lastSettings := settings,
          spawned := spawned s @ [(pythonPath (getPythonPath env s),
                                   python_args env s imagePath settings)]\<rparr>)
       (getCacheKey env imagePath settings) (output_file env)
       (spawn env (pythonPath (getPythonPath env s)) (python_args env s imagePath settings))"
  using assms by (auto simp: process_image_def Let_def)

lemma example_reaches_child:
  "process_image (example_env child output) initial_state ''/img/a.png'' settings =
     on_process_end (example_env child output)
       (initial_state\<lparr>lastSettings := settings,
          spawned := [(''python'',
             python_args (example_env child output) initial_state ''/img/a.png'' settings)]\<rparr>)
       (getCacheKey (example_env child output) ''/img/a.png'' settings)
       ''/tmp/ansi-ascii-art-generator/output-1700000000000.txt'' child"
  using process_image_reaches_child [of initial_state "example_env child output"
      "''/img/a.png''" settings]
  by (simp add: example_key_fresh example_paths example_env_fields example_state_fields(2))

text \<open>
  C4 (the code at the failing input). With the custom character set \<^verbatim>\<open>@#\<close> in the settings,
  the child is started with the named preset \<^verbatim>\<open>classic\<close> and without any argument that
  carries the custom characters.
\<close>

theorem custom_chars_not_forwarded:
  "spawned (snd (process_image (example_env (Closed (Some 0) [] []) (Inr ''ART'')) initial_state
      ''/img/a.png'' (example_settings\<lparr>customChars := ''@#''\<rparr>)))
   = [(''python'',
       [''/app/python_bridge.py'', ''generate'', ''/img/a.png'',
        ''--output'', ''/tmp/ansi-ascii-art-generator/output-1700000000000.txt'',
        ''--width'', ''100'', ''--color'', ''ansi'', ''--preset'', ''classic'',
        ''--edge-threshold'', ''75'', ''--aspect-ratio'', ''1'', ''--blur'', ''0'',
        ''--sharpen'', ''0'', ''--brightness'', ''1'', ''--saturation'', ''1'',
        ''--contrast'', ''1'', ''--detail-level'', ''1'', ''--gamma'', ''1'',
        ''--optimize-for'', ''memory'', ''--max-image-size'', ''2000''])]"
proof -
  let ?env = "example_env (Closed (Some 0) [] []) (Inr ''ART'') :: int env"
  have args: "python_args ?env initial_state ''/img/a.png'' (example_settings\<lparr>customChars := ''@#''\<rparr>)
    = [''/app/python_bridge.py'', ''generate'', ''/img/a.png'',
        ''--output'', ''/tmp/ansi-ascii-art-generator/output-1700000000000.txt'',
        ''--width'', ''100'', ''--color'', ''ansi'', ''--preset'', ''classic'',
        ''--edge-threshold'', ''75'', ''--aspect-ratio'', ''1'', ''--blur'', ''0'',
        ''--sharpen'', ''0'', ''--brightness'', ''1'', ''--saturation'', ''1'',
        ''--contrast'', ''1'', ''--detail-level'', ''1'', ''--gamma'', ''1'',
        ''--optimize-for'', ''memory'', ''--max-image-size'', ''2000'']"
    by (simp add: python_args_def build_args_def example_paths example_env_fields
        example_state_fields example_settings_def show_int_examples)
  show ?thesis
    by (simp add: example_reaches_child on_process_end_def args example_paths)
qed

text \<open>
  C5 (as the specification states it, refuted). The handler does not check the width:
  with \<^verbatim>\<open>outputWidth = 0\<close>, a child that ends with code 0 and an empty output file make
  the call resolve with the empty string.
\<close>

theorem zero_width_counterexample:
  "outputWidth (example_settings\<lparr>outputWidth := 0\<rparr>) = 0
   \<and> fst (process_image (example_env (Closed (Some 0) [] []) (Inr [])) initial_state
          ''/img/a.png'' (example_settings\<lparr>outputWidth := 0\<rparr>)) = Resolved []"
  by (simp add: example_reaches_child on_process_end_def example_paths)

text \<open>
  C5 (amended). With \<^verbatim>\<open>outputWidth = 0\<close> the handler makes no check of its own. When the key
  is not cached and the bridge script, the image and the temporary directory are there, it
  starts the child with the arguments \<^verbatim>\<open>--width\<close> and the printed 0; it rejects with
  \<^verbatim>\<open>Python error: \<close> and the text of stderr when the child ends with a code other than 0,
  and resolves with the content of the output file, whatever it is, when the child ends
  with code 0.
\<close>

theorem zero_width_forwarded:
  fixes env :: "('n::zero) env"
  assumes width: "outputWidth settings = 0"
    and miss: "Map_get (processCache s) (getCacheKey env imagePath settings) = None"
    and bridge: "existsSync env (bridgeScript (getPythonPath env s))"
    and image: "existsSync env imagePath"
    and tmp: "existsSync env (tmp_dir env) \<or> mkdirSync env (tmp_dir env)"
  shows
  "take 2 (drop 5 (python_args env s imagePath settings)) = [''--width'', Number_toString env 0]
   \<and> spawned (snd (process_image env s imagePath settings))
       = spawned s @ [(pythonPath (getPythonPath env s), python_args env s imagePath settings)]
   \<and> (\<forall>code stdoutData stderrData.
         spawn env (pythonPath (getPythonPath env s)) (python_args env s imagePath settings)
           = Closed code stdoutData stderrData \<and> code \<noteq> Some 0 \<longrightarrow>
         fst (process_image env s imagePath settings)
           = Rejected (''Python error: '' @
               (if stderrData = [] then ''Unknown error'' else stderrData)))
   \<and> (\<forall>stdoutData stderrData result.
         spawn env (pythonPath (getPythonPath env s)) (python_args env s imagePath settings)
           = Closed (Some 0) stdoutData stderrData \<and>
         readFileSync env (output_file env) = Inr result \<longrightarrow>
         fst (process_image env s imagePath settings) = Resolved result)"
proof -
  note run = process_image_reaches_child [OF miss bridge image tmp]
  have a: "take 2 (drop 5 (python_args env s imagePath settings))
            = [''--width'', Number_toString env 0]"
    by (simp add: python_args_def build_args_def width)
  have b: "spawned (snd (process_image env s imagePath settings))
       = spawned s @ [(pythonPath (getPythonPath env s), python_args env s imagePath settings)]"
    unfolding run by (simp add: on_process_end_def split: proc_result.splits sum.splits)
  have c: "fst (process_image env s imagePath settings)
           = Rejected (''Python error: '' @
               (if stderrData = [] then ''Unknown error'' else stderrData))"
    if "spawn env (pythonPath (getPythonPath env s)) (python_args env s imagePath settings)
           = Closed code stdoutData stderrData \<and> code \<noteq> Some 0"
    for code stdoutData stderrData
    unfolding run using that by (simp add: on_process_end_def)
  have d: "fst (process_image env s imagePath settings) = Resolved result"
    if "spawn env (pythonPath (getPythonPath env s)) (python_args env s imagePath settings)
           = Closed (Some 0) stdoutData stderrData \<and>
         readFileSync env (output_file env) = Inr result"
    for stdoutData stderrData result
    unfolding run using that by (simp add: on_process_end_def)
  from a b c d show ?thesis by blast
qed

theorem zero_width_forwarded_witness:
  "outputWidth (example_settings\<lparr>outputWidth := 0\<rparr>) = 0
   \<and> take 2 (drop 5 (python_args (example_env (Closed (Some 1) [] ''ValueError'') (Inl ''ENOENT''))
        initial_state ''/img/a.png'' (example_settings\<lparr>outputWidth := 0\<rparr>))) = [''--width'', ''0'']
   \<and> fst (process_image (example_env (Closed (Some 1) [] ''ValueError'') (Inl ''ENOENT'')) initial_state
          ''/img/a.png'' (example_settings\<lparr>outputWidth := 0\<rparr>)) = Rejected ''Python error: ValueError''
   \<and> fst (process_image (example_env (Closed (Some 0) [] []) (Inr [])) initial_state
          ''/img/a.png'' (example_settings\<lparr>outputWidth := 0\<rparr>)) = Resolved []"
proof -
  let ?cfg = "example_settings\<lparr>outputWidth := 0\<rparr>"
  let ?e1 = "example_env (Closed (Some 1) [] ''ValueError'') (Inl ''ENOENT'') :: int env"
  let ?e2 = "example_env (Closed (Some 0) [] []) (Inr []) :: int env"
  have w: "outputWidth ?cfg = 0" by simp
  have tmp: "existsSync (example_env child res) (tmp_dir (example_env child res))
             \<or> mkdirSync (example_env child res) (tmp_dir (example_env child res))"
    for child res
    by (simp add: example_paths)
  note t1 = zero_width_forwarded [OF w example_key_fresh, where env = ?e1 and imagePath = "''/img/a.png''",
      unfolded example_paths, OF example_paths(2) example_paths(3) tmp]
  note t2 = zero_width_forwarded [OF w example_key_fresh, where env = ?e2 and imagePath = "''/img/a.png''",
      unfolded example_paths, OF example_paths(2) example_paths(3) tmp]
  from t1 have a: "take 2 (drop 5 (python_args ?e1 initial_state ''/img/a.png'' ?cfg)) = [''--width'', ''0'']"
    by (simp add: example_env_fields show_int_examples)
  from t1 have b: "fst (process_image ?e1 initial_state ''/img/a.png'' ?cfg) = Rejected ''Python error: ValueError''"
    by simp
  from t2 have c: "fst (process_image ?e2 initial_state ''/img/a.png'' ?cfg) = Resolved []"
    by simp
  from w a b c show ?thesis by blast
qed

subsection \<open>Claims about the other handlers\<close>

lemma get_character_presets_spawn_throws:
  "existsSync env (bridgeScript (getPythonPath env s)) \<Longrightarrow>
   spawn env (pythonPath (getPythonPath env s))
     [bridgeScript (getPythonPath env s), ''get_presets''] = SpawnThrows msg \<Longrightarrow>
   fst (get_character_presets env s) = Rejected msg"
  by (simp add: get_character_presets_def Let_def)

text \<open>
  C7 (as the specification states it, refuted). With the bridge script missing,
  \<^verbatim>\<open>get-character-presets\<close> resolves with the empty list, as a call that succeeded does;
  no error reaches the caller.
\<close>

theorem get_character_presets_counterexample:
  "\<not> existsSync ((example_env (Closed (Some 0) ''[]'' []) (Inr []))\<lparr>fileBytes := (\<lambda>p. None)\<rparr>)
        (bridgeScript (getPythonPath
           ((example_env (Closed (Some 0) ''[]'' []) (Inr []))\<lparr>fileBytes := (\<lambda>p. None)\<rparr>) initial_state))
   \<and> get_character_presets
        ((example_env (Closed (Some 0) ''[]'' []) (Inr []))\<lparr>fileBytes := (\<lambda>p. None)\<rparr>) initial_state
      = (Resolved (JArray []), initial_state)"
  by (simp add: get_character_presets_def Let_def existsSync_def example_env_def getPythonPath_def)

text \<open>
  C7 (amended). \<^verbatim>\<open>get-character-presets\<close> does not report these failures as errors: when
  the bridge script is missing, when the \<^verbatim>\<open>error\<close> event of the child reports that it could
  not be started, when the child ends with a code other than 0 and when its output is not
  JSON, the call resolves with the empty list, as a call that found no presets does.
\<close>

theorem get_character_presets_failures:
  "(\<not> existsSync env (bridgeScript (getPythonPath env s)) \<longrightarrow>
      get_character_presets env s = (Resolved (JArray []), s))
   \<and> (existsSync env (bridgeScript (getPythonPath env s)) \<and>
       spawn env (pythonPath (getPythonPath env s))
         [bridgeScript (getPythonPath env s), ''get_presets''] = SpawnError msg \<longrightarrow>
      fst (get_character_presets env s) = Resolved (JArray []))
   \<and> (existsSync env (bridgeScript (getPythonPath env s)) \<and>
       spawn env (pythonPath (getPythonPath env s))
         [bridgeScript (getPythonPath env s), ''get_presets''] = Closed code stdoutData stderrData \<and>
       code \<noteq> Some 0 \<longrightarrow>
      fst (get_character_presets env s) = Resolved (JArray []))
   \<and> (existsSync env (bridgeScript (getPythonPath env s)) \<and>
       spawn env (pythonPath (getPythonPath env s))
         [bridgeScript (getPythonPath env s), ''get_presets''] = Closed (Some 0) stdoutData stderrData \<and>
       JSON_parse env (String_trim env stdoutData) = None \<longrightarrow>
      fst (get_character_presets env s) = Resolved (JArray []))"
  by (simp add: get_character_presets_def Let_def)

lemma trim_examples:
  "String_trim (example_env child output) ''Traceback'' = ''Traceback''"
  "String_trim (example_env child output) [] = []"
  by (simp_all add: example_env_def trim_latin1_def is_space_def)

theorem get_character_presets_failures_witness:
  "get_character_presets
        ((example_env (Closed (Some 0) ''[]'' []) (Inr []))\<lparr>fileBytes := (\<lambda>p. None)\<rparr>) initial_state
      = (Resolved (JArray []), initial_state)
   \<and> existsSync (example_env (SpawnError ''spawn python ENOENT'') (Inr [])) ''/app/python_bridge.py''
   \<and> fst (get_character_presets (example_env (SpawnError ''spawn python ENOENT'') (Inr [])) initial_state)
      = Resolved (JArray [])
   \<and> (Some 2 :: int option) \<noteq> Some 0
   \<and> fst (get_character_presets (example_env (Closed (Some 2) [] ''ImportError'') (Inr [])) initial_state)
      = Resolved (JArray [])
   \<and> JSON_parse (example_env (Closed (Some 0) ''Traceback'' []) (Inr []))
         (String_trim (example_env (Closed (Some 0) ''Traceback'' []) (Inr [])) ''Traceback'') = None
   \<and> fst (get_character_presets (example_env (Closed (Some 0) ''Traceback'' []) (Inr [])) initial_state)
      = Resolved (JArray [])"
proof -
  let ?e0 = "(example_env (Closed (Some 0) ''[]'' []) (Inr []))\<lparr>fileBytes := (\<lambda>p. None)\<rparr> :: int env"
  let ?e1 = "example_env (SpawnError ''spawn python ENOENT'') (Inr []) :: int env"
  let ?e2 = "example_env (Closed (Some 2) [] ''ImportError'') (Inr []) :: int env"
  let ?e3 = "example_env (Closed (Some 0) ''Traceback'' []) (Inr []) :: int env"
  have nobridge: "\<not> existsSync ?e0 (bridgeScript (getPythonPath ?e0 initial_state))"
    by (simp add: existsSync_def example_env_def getPythonPath_def)
  have noparse: "JSON_parse ?e3 (String_trim ?e3 ''Traceback'') = None"
    by (simp add: trim_examples) (simp add: example_env_def)
  have r0: "get_character_presets ?e0 initial_state = (Resolved (JArray []), initial_state)"
    using get_character_presets_failures [where env = ?e0 and s = initial_state] nobridge
    by blast
  have r1: "fst (get_character_presets ?e1 initial_state) = Resolved (JArray [])"
    using get_character_presets_failures [where env = ?e1 and s = initial_state
        and msg = "''spawn python ENOENT''"]
    by (simp add: example_paths)
  have r2: "fst (get_character_presets ?e2 initial_state) = Resolved (JArray [])"
    using get_character_presets_failures [where env = ?e2 and s = initial_state
        and code = "Some 2" and stdoutData = "[]" and stderrData = "''ImportError''"]
    by (simp add: example_paths)
  have r3: "fst (get_character_presets ?e3 initial_state) = Resolved (JArray [])"
    using get_character_presets_failures [where env = ?e3 and s = initial_state
        and stdoutData = "''Traceback''" and stderrData = "[]"] noparse
    by (simp add: example_paths)
  from r0 r1 r2 r3 noparse show ?thesis by (simp add: example_paths)
qed

lemma suggest_optimal_settings_spawn_throws:
  "existsSync env imagePath \<Longrightarrow>
   spawn env (pythonPath (getPythonPath env s))
     [bridgeScript (getPythonPath env s), ''suggest_settings'', imagePath, ''100'']
     = SpawnThrows msg \<Longrightarrow>
   fst (suggest_optimal_settings env s imagePath) = Rejected msg"
  by (simp add: suggest_optimal_settings_def Let_def)


lemma suggest_optimal_settings_example:
  "fst (suggest_optimal_settings
          (example_env (Closed (Some 0) (''Width: 120'' @ [CHR 0x0A] @ ''Dithering: disabled'') [])
             (Inr []))
          initial_state ''/img/a.png'')
   = Resolved (Suggested (JObject [(''outputWidth'', JNumber 120), (''dithering'', JBool False)]))"
  by code_simp

lemma suggest_optimal_settings_missing_example:
  "suggest_optimal_settings (example_env (Closed (Some 0) [] []) (Inr [])) initial_state
     ''/img/missing.png''
   = (Resolved (NotSuggested ''File not found''), initial_state)"
  by (simp add: suggest_optimal_settings_def existsSync_def example_env_def)

subsection \<open>Claims about the renderer\<close>

lemma map_of_obj_set: "map_of (obj_set k v obj) = (map_of obj)(k \<mapsto> v)"
  by (induction obj) (auto simp: fun_eq_iff)

lemma map_of_fold_obj_set:
  "map_of (fold (\<lambda>e. obj_set (fst e) (snd e)) ps obj) = map_of obj ++ map_of (rev ps)"
proof (induction ps arbitrary: obj)
  case Nil
  then show ?case by simp
next
  case (Cons p ps)
  have "map_of (fold (\<lambda>e. obj_set (fst e) (snd e)) (p # ps) obj)
        = (map_of obj)(fst p \<mapsto> snd p) ++ map_of (rev ps)"
    by (simp only: fold_Cons comp_apply Cons.IH map_of_obj_set)
  also have "\<dots> = map_of obj ++ map_of (rev (p # ps))"
    by (cases p) (simp add: fun_eq_iff map_add_def split: option.splits)
  finally show ?case .
qed

lemma obj_get_spread:
  "obj_get (spread v obj) k =
     (case map_of (rev (own_props v)) k of Some x \<Rightarrow> x | None \<Rightarrow> obj_get obj k)"
  by (simp add: obj_get_def spread_def map_of_fold_obj_set map_add_def split: option.splits)

lemma map_of_rev_display:
  "k \<in> set ks \<Longrightarrow> map_of (rev (map (\<lambda>k. (k, f k)) ks)) k = Some (f k)"
  by (simp add: rev_map map_of_map_restrict)

text \<open>
  C9. \<^verbatim>\<open>applyPreset\<close> leaves the display settings as they were: for every value passed as
  the preset, also an object that itself has display properties, and every settings object
  of the application, the call returns and the new settings have the same
  \<^verbatim>\<open>fontFamily\<close>, \<^verbatim>\<open>fontSize\<close>, \<^verbatim>\<open>autoFit\<close>, \<^verbatim>\<open>bgColor\<close> and \<^verbatim>\<open>textColor\<close> as the old ones.
\<close>

theorem applyPreset_keeps_display_settings:
  "\<exists>app'. applyPreset num_truthy (Some app) preset_obj = Some app' \<and>
     (\<forall>k \<in> set [''fontFamily'', ''fontSize'', ''autoFit'', ''bgColor'', ''textColor''].
        obj_get (app_settings app') k = obj_get (app_settings app) k)"
proof (cases "truthy num_truthy preset_obj")
  case False
  then show ?thesis by (simp add: applyPreset_def)
next
  case True
  let ?d = "JObject (map (\<lambda>k. (k, obj_get (app_settings app) k)) display_keys)"
  let ?new = "spread ?d (spread preset_obj (spread (JObject (app_settings app)) []))"
  have eq: "applyPreset num_truthy (Some app) preset_obj
            = Some (app\<lparr>app_settings := ?new, status := Some (''Preset applied'', ''success'')\<rparr>)"
    using True by (simp add: applyPreset_def Let_def)
  have "obj_get ?new k = obj_get (app_settings app) k" if "k \<in> set display_keys" for k
    using map_of_rev_display [OF that, of "obj_get (app_settings app)"]
    by (simp add: obj_get_spread [of ?d] own_props_def)
  then show ?thesis
    unfolding eq by (simp add: display_keys_def)
qed

theorem applyPreset_keeps_display_settings_witness:
  "''fontFamily'' \<in> set [''fontFamily'', ''fontSize'', ''autoFit'', ''bgColor'', ''textColor'']
   \<and> applyPreset (\<lambda>n. n \<noteq> (0::int))
        (Some \<lparr>app_settings =
                 [(''outputWidth'', JNumber 100), (''preset'', JString ''classic''),
                  (''fontFamily'', JString ''monospace''), (''fontSize'', JNumber 14),
                  (''bgColor'', JString ''#000000'')],
               status = None\<rparr>)
        (JObject [(''outputWidth'', JNumber 120), (''preset'', JString ''photo''),
                  (''fontFamily'', JString ''serif'')])
      = Some \<lparr>app_settings =
                 [(''outputWidth'', JNumber 120), (''preset'', JString ''photo''),
                  (''fontFamily'', JString ''monospace''), (''fontSize'', JNumber 14),
                  (''bgColor'', JString ''#000000''), (''autoFit'', JUndefined),
                  (''textColor'', JUndefined)],
               status = Some (''Preset applied'', ''success'')\<rparr>
   \<and> obj_get [(''outputWidth'', JNumber 120), (''preset'', JString ''photo''),
                  (''fontFamily'', JString ''monospace''), (''fontSize'', JNumber 14),
                  (''bgColor'', JString ''#000000''), (''autoFit'', JUndefined),
                  (''textColor'', JUndefined :: int jsval)] ''fontFamily''
      = JString ''monospace''"
proof -
  let ?app = "\<lparr>app_settings =
                 [(''outputWidth'', JNumber 100), (''preset'', JString ''classic''),
                  (''fontFamily'', JString ''monospace''), (''fontSize'', JNumber 14),
                  (''bgColor'', JString ''#000000'')],
               status = None\<rparr> :: int AsciiArtGenerator"
  let ?p = "JObject [(''outputWidth'', JNumber 120), (''preset'', JString ''photo''),
                  (''fontFamily'', JString ''serif'')] :: int jsval"
  let ?new = "[(''outputWidth'', JNumber 120), (''preset'', JString ''photo''),
                  (''fontFamily'', JString ''monospace''), (''fontSize'', JNumber 14),
                  (''bgColor'', JString ''#000000''), (''autoFit'', JUndefined),
                  (''textColor'', JUndefined :: int jsval)]"
  have run: "applyPreset (\<lambda>n. n \<noteq> (0::int)) (Some ?app) ?p
             = Some \<lparr>app_settings = ?new, status = Some (''Preset applied'', ''success'')\<rparr>"
    by (simp add: applyPreset_def truthy_def Let_def spread_def own_props_def display_keys_def
        obj_get_def)
  from applyPreset_keeps_display_settings [of "\<lambda>n. n \<noteq> (0::int)" ?app ?p]
  have "obj_get ?new ''fontFamily'' = obj_get (app_settings ?app) ''fontFamily''"
    unfolding run by simp
  then have "obj_get ?new ''fontFamily'' = JString ''monospace''"
    by (simp add: obj_get_def)
  with run show ?thesis by simp
qed

lemma take_pattern_append:
  assumes pat: "pat = c0 # p'" "c0 \<notin> set p'"
    and t: "t = [] \<or> hd t = c0"
    and s: "s \<noteq> []"
  shows "take (length pat) (s @ t) = pat \<longleftrightarrow> take (length pat) s = pat"
proof (cases "length pat \<le> length s")
  case True
  then show ?thesis by simp
next
  case False
  then have short: "length s < length pat" by simp
  have ne: "take (length pat) s \<noteq> pat"
  proof
    assume "take (length pat) s = pat"
    then have "length (take (length pat) s) = length pat" by simp
    with short show False by simp
  qed
  have "take (length pat) (s @ t) \<noteq> pat"
  proof
    assume eq: "take (length pat) (s @ t) = pat"
    from short have "take (length pat) (s @ t) = s @ take (length pat - length s) t" by simp
    with eq have split: "pat = s @ take (length pat - length s) t" by simp
    from s obtain a s' where s': "s = a # s'" by (cases s) auto
    from split s' pat(1) have p': "p' = s' @ take (length pat - length s) t" by simp
    have "take (length pat - length s) t \<noteq> []"
    proof
      assume "take (length pat - length s) t = []"
      with split have "pat = s" by simp
      with short show False by simp
    qed
    then obtain b u where bu: "take (length pat - length s) t = b # u"
      by (cases "take (length pat - length s) t") auto
    then have tne: "t \<noteq> []" by auto
    then obtain b' t' where t': "t = b' # t'" by (cases t) auto
    with bu have "b = b'" by (cases "length pat - length s") auto
    with t t' have "b = c0" by simp
    with bu have "c0 \<in> set (take (length pat - length s) t)" by simp
    with p' pat(2) show False by simp
  qed
  with ne show ?thesis by simp
qed

lemma count_matches_Nil: "pat \<noteq> [] \<Longrightarrow> count_matches pat [] = 0"
  by (subst count_matches.simps) simp

lemma span_patterns:
  "CHR ''<'' \<notin> set ''span''" "CHR ''<'' \<notin> set ''/span>''"
  by simp_all

lemma span_counts:
  "count_matches ''<span'' ''</span>'' = 0" "count_matches ''</span>'' ''</span>'' = 1"
  "count_matches ''<span'' [] = 0" "count_matches ''</span>'' [] = 0"
  by code_simp+

lemma count_matches_match:
  "pat \<noteq> [] \<Longrightarrow> s \<noteq> [] \<Longrightarrow> take (length pat) s = pat \<Longrightarrow>
   count_matches pat s = Suc (count_matches pat (drop (length pat) s))"
  by (subst count_matches.simps) simp

lemma count_matches_skip:
  "pat \<noteq> [] \<Longrightarrow> s \<noteq> [] \<Longrightarrow> take (length pat) s \<noteq> pat \<Longrightarrow>
   count_matches pat s = count_matches pat (tl s)"
  by (subst count_matches.simps) simp

lemma count_matches_append:
  assumes pat: "pat = c0 # p'" "c0 \<notin> set p'"
    and t: "t = [] \<or> hd t = c0"
  shows "count_matches pat (s @ t) = count_matches pat s + count_matches pat t"
proof (induction s rule: length_induct)
  case (1 s)
  have pne: "pat \<noteq> []" using pat(1) by simp
  show ?case
  proof (cases s)
    case Nil
    with pne show ?thesis by (simp add: count_matches_Nil)
  next
    case (Cons a s')
    then have ne: "s \<noteq> []" by simp
    then have ne': "s @ t \<noteq> []" by simp
    note key = take_pattern_append [OF pat t ne]
    show ?thesis
    proof (cases "take (length pat) s = pat")
      case True
      have len: "length pat \<le> length s"
        using arg_cong [OF True, of length] by simp
      have shorter: "length (drop (length pat) s) < length s"
        using pne ne by simp
      have m1: "count_matches pat (s @ t) = Suc (count_matches pat (drop (length pat) (s @ t)))"
        using key True by (intro count_matches_match [OF pne ne']) simp
      have d: "drop (length pat) (s @ t) = drop (length pat) s @ t"
        using len by simp
      have ih: "count_matches pat (drop (length pat) s @ t)
                 = count_matches pat (drop (length pat) s) + count_matches pat t"
        using 1 shorter by blast
      have m2: "count_matches pat s = Suc (count_matches pat (drop (length pat) s))"
        by (rule count_matches_match [OF pne ne True])
      show ?thesis by (simp only: m1 d ih m2 add_Suc)
    next
      case False
      have k1: "count_matches pat (s @ t) = count_matches pat (tl (s @ t))"
        using key False by (intro count_matches_skip [OF pne ne']) simp
      have tl: "tl (s @ t) = s' @ t" "tl s = s'" using Cons by simp_all
      have ih: "count_matches pat (s' @ t) = count_matches pat s' + count_matches pat t"
        using 1 Cons by simp
      have k2: "count_matches pat s = count_matches pat s'"
        using count_matches_skip [OF pne ne False] tl(2) by simp
      show ?thesis by (simp only: k1 tl ih k2)
    qed
  qed
qed

lemma closers_head:
  "concat (replicate n ''</span>'') = [] \<or> hd (concat (replicate n ''</span>'')) = CHR ''<''"
  by (cases n) simp_all

lemma count_open_closers: "count_matches ''<span'' (concat (replicate n ''</span>'')) = 0"
proof (induction n)
  case 0
  show ?case by (simp add: span_counts)
next
  case (Suc n)
  have "count_matches ''<span'' (''</span>'' @ concat (replicate n ''</span>''))
        = count_matches ''<span'' ''</span>'' + count_matches ''<span'' (concat (replicate n ''</span>''))"
    by (rule count_matches_append [OF refl span_patterns(1) closers_head])
  also have "count_matches ''<span'' ''</span>'' = 0"
    by (rule span_counts)
  finally show ?case using Suc by simp
qed

lemma count_close_closers: "count_matches ''</span>'' (concat (replicate n ''</span>'')) = n"
proof (induction n)
  case 0
  show ?case by (simp add: span_counts)
next
  case (Suc n)
  have "count_matches ''</span>'' (''</span>'' @ concat (replicate n ''</span>''))
        = count_matches ''</span>'' ''</span>'' + count_matches ''</span>'' (concat (replicate n ''</span>''))"
    by (rule count_matches_append [OF refl span_patterns(2) closers_head])
  also have "count_matches ''</span>'' ''</span>'' = 1"
    by (rule span_counts)
  finally show ?case using Suc by simp
qed

text \<open>What the appended closing tags do achieve: in the result there are at least as many
  matches of \<^verbatim>\<open></span>\<close> as of \<^verbatim>\<open><span\<close>.\<close>

lemma processAnsiOutput_counts:
  "count_matches ''<span'' (processAnsiOutput fmt ansi)
     \<le> count_matches ''</span>'' (processAnsiOutput fmt ansi)"
proof -
  define processed where "processed = replace_codes fmt (replace_newlines ansi)"
  define openTags where "openTags = count_matches ''<span'' processed"
  define closeTags where "closeTags = count_matches ''</span>'' processed"
  let ?closers = "concat (replicate (openTags - closeTags) ''</span>'')"
  have out: "processAnsiOutput fmt ansi = processed @ ?closers"
    by (simp add: processAnsiOutput_def Let_def processed_def openTags_def closeTags_def)
  have "count_matches ''<span'' (processed @ ?closers)
        = count_matches ''<span'' processed + count_matches ''<span'' ?closers"
    by (rule count_matches_append [OF refl span_patterns(1) closers_head])
  then have opens: "count_matches ''<span'' (processed @ ?closers) = openTags"
    by (simp add: count_open_closers openTags_def)
  have "count_matches ''</span>'' (processed @ ?closers)
        = count_matches ''</span>'' processed + count_matches ''</span>'' ?closers"
    by (rule count_matches_append [OF refl span_patterns(2) closers_head])
  then have closes: "count_matches ''</span>'' (processed @ ?closers)
                     = closeTags + (openTags - closeTags)"
    by (simp add: count_close_closers closeTags_def)
  show ?thesis unfolding out opens closes by simp
qed

text \<open>
  C10 (the code at the failing input). A reset code that comes before a colour code: the
  closing tag that replaces the reset comes first and closes nothing, the two counts
  agree, so no closing tag is appended, and the span opened by the colour code is never
  closed.
\<close>

theorem processAnsiOutput_span_left_open:
  \<open>processAnsiOutput show_nat ([CHR 0x1B] @ ''[0m'' @ [CHR 0x1B] @ ''[38;5;196mA'')
     = ''</span><span style="color: var(--ansi-196);">A''
   \<and> count_matches ''<span'' ''</span><span style="color: var(--ansi-196);">A'' = 1
   \<and> count_matches ''</span>'' ''</span><span style="color: var(--ansi-196);">A'' = 1
   \<and> open_spans 0
        (processAnsiOutput show_nat ([CHR 0x1B] @ ''[0m'' @ [CHR 0x1B] @ ''[38;5;196mA'')) = 1\<close>
  by code_simp

lemma processAnsiOutput_example:
  \<open>processAnsiOutput show_nat
     ([CHR 0x1B] @ ''[38;5;196mA'' @ [CHR 0x1B] @ ''[0m'' @ [CHR 0x0D, CHR 0x0A, CHR 0x1B]
        @ ''[38;2;1;0;3mB'')
   = ''<span style="color: var(--ansi-196);">A</span><br><span style="color: rgb(1, 255, 3);">B</span>''\<close>
  by code_simp

lemma processAnsiOutput_literal_example:
  \<open>processAnsiOutput show_nat ([CHR 0x1B] @ ''[1mA<span'' @ [CHR 0x1B] @ ''[mB'')
   = ''<span>A<span</span>B</span>''\<close>
  by code_simp

end
